theory Spec2Isabelle
  imports Main "HOL-Library.AList"
begin

section \<open>The screencast service: data model\<close>

text \<open>
  The model follows \<^verbatim>\<open>js/dbusServices/screencast/screencastService.js\<close>.
  A \<^verbatim>\<open>Recorder\<close> object is a record; every method takes the record and returns
  the updated one. What a method does to the outside world (calls on the GStreamer
  pipeline, on the D-Bus proxies, on the pending promises, the log) is appended to
  the field \<open>effects\<close>, oldest first, so that the order of those calls can be read off.
\<close>

datatype PipelineState = INIT | PLAYING | FLUSHING | STOPPED | ERROR

datatype SessionState = SESSION_INIT | SESSION_ACTIVE | SESSION_STOPPED

datatype effect =
    PipelineSetStateNull
  | PipelineSetStatePlaying
  | PipelineSendEos
  | BusAddWatch
  | WatchName string
  | UnwatchName nat
  | SessionRecordAreaSync
  | StreamConnectSignal
  | SessionStartSync
  | SessionStopSync
  | Log string
  | OnErrorCallback
  | StartResolve
  | StartReject string
  | StopResolve
  | StopReject string
  | AddRecentItem string

record Recorder =
  areaX :: int
  areaY :: int
  areaWidth :: int
  areaHeight :: int
  filePath :: string
  pipelineString :: string
  framerate :: int
  drawCursor :: bool
  pipelineState :: PipelineState
  pipeline :: "nat option"
  nameWatchId :: nat
  sessionState :: SessionState
  onErrorCallback :: bool
  startRequest :: bool
  stopRequest :: bool
  effects :: "effect list"

text \<open>
  What the libraries answer is not decided by the service; each method reads it from
  a \<open>world\<close>: whether \<^verbatim>\<open>set_state(NULL)\<close> reports success, whether a synchronous
  D-Bus call throws (and with which message), what \<^verbatim>\<open>Gst.parse_launch_full\<close> and
  \<^verbatim>\<open>set_state(PLAYING)\<close> return.
\<close>

datatype StateChangeReturn = GST_FAILURE | GST_SUCCESS | GST_ASYNC | GST_NO_PREROLL

datatype mkdir_result = MKDIR_OK | MKDIR_EXISTS | MKDIR_FAILED string

record world =
  disable_save_to_disk :: bool
  CreateSessionSync :: "string + string"
  ScreenSize :: "(int \<times> int) option"
  make_directory_with_parents :: mkdir_result
  watch_name :: nat
  SessionProxy_error :: "string option"
  RecordAreaSync_error :: "string option"
  StreamProxy_error :: "string option"
  StartSync_error :: "string option"
  parse_launch_full :: "string + nat"
  set_state_playing :: StateChangeReturn
  set_state_null :: StateChangeReturn
  StopSync_error :: "string option"

text \<open>How a method ends: it returns, or an exception leaves it.\<close>

datatype completion = Normal | Throw string

text \<open>A promise handed back by \<^verbatim>\<open>startRecording\<close> or \<^verbatim>\<open>stopRecording\<close>.\<close>

datatype promise = Pending | Rejected string

definition emit :: "effect \<Rightarrow> Recorder \<Rightarrow> Recorder" where
  "emit e r = r\<lparr>effects := effects r @ [e]\<rparr>"

section \<open>Recorder methods\<close>

definition addRecentItem :: "Recorder \<Rightarrow> Recorder" where
  "addRecentItem r = emit (AddRecentItem (filePath r)) r"

definition unwatchSender :: "Recorder \<Rightarrow> Recorder" where
  "unwatchSender r =
     (if nameWatchId r \<noteq> 0
      then (emit (UnwatchName (nameWatchId r)) r)\<lparr>nameWatchId := 0\<rparr>
      else r)"

definition teardownPipeline :: "world \<Rightarrow> Recorder \<Rightarrow> Recorder" where
  "teardownPipeline w r =
     (case pipeline r of
        None \<Rightarrow> r
      | Some p \<Rightarrow>
          (let r1 = emit PipelineSetStateNull r;
               r2 = (if set_state_null w \<noteq> GST_SUCCESS
                     then emit (Log ''Failed to set pipeline state to NULL'') r1
                     else r1)
           in r2\<lparr>pipelineState := STOPPED, pipeline := None\<rparr>))"

definition stopSession :: "world \<Rightarrow> Recorder \<Rightarrow> completion \<times> Recorder" where
  "stopSession w r =
     (if sessionState r = SESSION_ACTIVE
      then (let r1 = emit SessionStopSync (r\<lparr>sessionState := SESSION_STOPPED\<rparr>)
            in case StopSync_error w of
                 None \<Rightarrow> (Normal, r1)
               | Some e \<Rightarrow> (Throw e, r1))
      else (Normal, r))"

definition bailOutOnError :: "world \<Rightarrow> string \<Rightarrow> Recorder \<Rightarrow> completion \<times> Recorder" where
  "bailOutOnError w msg r =
     (case stopSession w (unwatchSender (teardownPipeline w r)) of
        (Throw e, r3) \<Rightarrow> (Throw e, r3)
      | (Normal, r3) \<Rightarrow>
          (let r4 = emit (Log (''Recorder error: '' @ msg)) r3;
               r5 = (if onErrorCallback r4
                     then (emit OnErrorCallback r4)\<lparr>onErrorCallback := False\<rparr>
                     else r4);
               r6 = (if startRequest r5
                     then (emit (StartReject msg) r5)\<lparr>startRequest := False\<rparr>
                     else r5);
               r7 = (if stopRequest r6
                     then (emit (StopReject msg) r6)\<lparr>stopRequest := False\<rparr>
                     else r6)
           in (Normal, r7)))"

definition handleFatalPipelineError :: "world \<Rightarrow> string \<Rightarrow> Recorder \<Rightarrow> completion \<times> Recorder" where
  "handleFatalPipelineError w message r =
     bailOutOnError w (''Fatal pipeline error: '' @ message) (r\<lparr>pipelineState := ERROR\<rparr>)"

definition senderVanished :: "world \<Rightarrow> Recorder \<Rightarrow> completion \<times> Recorder" where
  "senderVanished w r = bailOutOnError w ''Sender has vanished'' r"

definition onSessionClosed :: "world \<Rightarrow> Recorder \<Rightarrow> completion \<times> Recorder" where
  "onSessionClosed w r =
     (if sessionState r = SESSION_STOPPED
      then (Normal, r)
      else bailOutOnError w ''Session closed unexpectedly'' (r\<lparr>sessionState := SESSION_STOPPED\<rparr>))"

text \<open>
  \<^verbatim>\<open>stopRecording\<close>: with a start still pending an already rejected promise comes
  back. Otherwise the body of the new promise runs at once; \<^verbatim>\<open>send_event\<close> on a
  missing pipeline is a \<^verbatim>\<open>TypeError\<close> inside that body, which rejects the promise
  after the two assignments have been made.
\<close>

definition stopRecording :: "Recorder \<Rightarrow> promise \<times> Recorder" where
  "stopRecording r =
     (if startRequest r
      then (Rejected ''Unable to stop recorder while still starting'', r)
      else (let r1 = r\<lparr>stopRequest := True, pipelineState := FLUSHING\<rparr>
            in case pipeline r1 of
                 None \<Rightarrow> (Rejected ''TypeError: this._pipeline is null'', r1)
               | Some p \<Rightarrow> (Pending, emit PipelineSendEos r1)))"

subsection \<open>Construction\<close>

definition DEFAULT_PIPELINE :: string where
  "DEFAULT_PIPELINE = ''videoconvert chroma-mode=GST_VIDEO_CHROMA_MODE_NONE dither=GST_VIDEO_DITHER_NONE matrix-mode=GST_VIDEO_MATRIX_MODE_OUTPUT_ONLY n-threads=%T ! queue ! vp8enc cpu-used=16 max-quantizer=17 deadline=1 keyframe-mode=disabled threads=%T static-threshold=1000 buffer-size=20000 ! queue ! webmmux''"

definition DEFAULT_FRAMERATE :: int where
  "DEFAULT_FRAMERATE = 30"

definition DEFAULT_DRAW_CURSOR :: bool where
  "DEFAULT_DRAW_CURSOR = True"

text \<open>The three options a caller may pass; an absent key is \<open>None\<close>.\<close>

record options =
  opt_pipeline :: "string option"
  opt_framerate :: "int option"
  opt_draw_cursor :: "bool option"

definition applyOptions :: "options \<Rightarrow> Recorder \<Rightarrow> Recorder" where
  "applyOptions opts r =
     (let r1 = (case opt_pipeline opts of None \<Rightarrow> r | Some p \<Rightarrow> r\<lparr>pipelineString := p\<rparr>);
          r2 = (case opt_framerate opts of None \<Rightarrow> r1 | Some f \<Rightarrow> r1\<lparr>framerate := f\<rparr>)
      in case opt_draw_cursor opts of None \<Rightarrow> r2 | Some d \<Rightarrow> r2\<lparr>drawCursor := d\<rparr>)"

definition watchSender :: "world \<Rightarrow> string \<Rightarrow> Recorder \<Rightarrow> Recorder" where
  "watchSender w sender r = (emit (WatchName sender) r)\<lparr>nameWatchId := watch_name w\<rparr>"

text \<open>
  The constructor. Creating the parent directory may fail; an error other than
  "exists" leaves the constructor, and so does a failure to build the session proxy.
  The error callback and the start invocation are given by the caller and always
  present on a new Recorder.
\<close>

definition new_Recorder ::
  "world \<Rightarrow> string \<Rightarrow> int \<Rightarrow> int \<Rightarrow> int \<Rightarrow> int \<Rightarrow> string \<Rightarrow> options \<Rightarrow> string
     \<Rightarrow> string + Recorder" where
  "new_Recorder w sessionPath x0 y0 width0 height0 path opts sender =
     (case make_directory_with_parents w of
        MKDIR_FAILED e \<Rightarrow> Inl e
      | _ \<Rightarrow>
          (let r = \<lparr>areaX = x0, areaY = y0, areaWidth = width0, areaHeight = height0,
                     filePath = path,
                     pipelineString = DEFAULT_PIPELINE,
                     framerate = DEFAULT_FRAMERATE,
                     drawCursor = DEFAULT_DRAW_CURSOR,
                     pipelineState = INIT, pipeline = None,
                     nameWatchId = 0,
                     sessionState = SESSION_INIT,
                     onErrorCallback = True,
                     startRequest = False, stopRequest = False,
                     effects = []\<rparr>;
               r1 = watchSender w sender (applyOptions opts r)
           in case SessionProxy_error w of
                Some e \<Rightarrow> Inl e
              | None \<Rightarrow> Inr (r1\<lparr>sessionState := SESSION_INIT\<rparr>)))"

subsection \<open>Starting\<close>

text \<open>
  \<^verbatim>\<open>_ensurePipeline\<close> builds the pipeline from its description; a parse failure is
  caught and handed to the fatal-error handler. The caller reads \<^verbatim>\<open>!!this._pipeline\<close>.
\<close>

definition ensurePipeline :: "world \<Rightarrow> nat \<Rightarrow> Recorder \<Rightarrow> completion \<times> Recorder" where
  "ensurePipeline w nodeId r =
     (case parse_launch_full w of
        Inr p \<Rightarrow> (Normal, r\<lparr>pipeline := Some p\<rparr>)
      | Inl e \<Rightarrow> handleFatalPipelineError w (''Failed to create pipeline: '' @ e) r)"

definition startPipeline :: "world \<Rightarrow> nat \<Rightarrow> Recorder \<Rightarrow> completion \<times> Recorder" where
  "startPipeline w nodeId r =
     (case ensurePipeline w nodeId r of
        (Throw e, r1) \<Rightarrow> (Throw e, r1)
      | (Normal, r1) \<Rightarrow>
          (if pipeline r1 = None then (Normal, r1)
           else (let r2 = emit PipelineSetStatePlaying (emit BusAddWatch r1)
                 in if set_state_playing w = GST_SUCCESS \<or> set_state_playing w = GST_ASYNC
                    then (Normal, r2)
                    else handleFatalPipelineError w ''Failed to start pipeline'' r2)))"

text \<open>
  \<^verbatim>\<open>startRecording\<close>: the body of the promise runs at once. An exception of one of
  the synchronous D-Bus calls rejects the promise and leaves the Recorder as the body
  had changed it up to there.
\<close>

definition startRecording :: "world \<Rightarrow> Recorder \<Rightarrow> promise \<times> Recorder" where
  "startRecording w r =
     (let r1 = emit SessionRecordAreaSync (r\<lparr>startRequest := True\<rparr>)
      in case RecordAreaSync_error w of
           Some e \<Rightarrow> (Rejected e, r1)
         | None \<Rightarrow>
             (case StreamProxy_error w of
                Some e \<Rightarrow> (Rejected e, r1)
              | None \<Rightarrow>
                  (let r2 = emit SessionStartSync (emit StreamConnectSignal r1)
                   in case StartSync_error w of
                        Some e \<Rightarrow> (Rejected e, r2)
                      | None \<Rightarrow> (Pending, r2\<lparr>sessionState := SESSION_ACTIVE\<rparr>))))"

subsection \<open>Messages of the pipeline bus\<close>

datatype GstState = GST_STATE_VOID_PENDING | GST_STATE_NULL | GST_STATE_READY
  | GST_STATE_PAUSED | GST_STATE_PLAYING

text \<open>A state change carries the object it comes from and the new state.\<close>

datatype message =
    MSG_STATE_CHANGED nat GstState
  | MSG_EOS
  | MSG_ERROR string
  | MSG_OTHER

fun PipelineState_name :: "PipelineState \<Rightarrow> string" where
  "PipelineState_name INIT = ''INIT''"
| "PipelineState_name PLAYING = ''PLAYING''"
| "PipelineState_name FLUSHING = ''FLUSHING''"
| "PipelineState_name STOPPED = ''STOPPED''"
| "PipelineState_name ERROR = ''ERROR''"

fun onBusMessage :: "world \<Rightarrow> message \<Rightarrow> Recorder \<Rightarrow> completion \<times> Recorder" where
  "onBusMessage w (MSG_STATE_CHANGED src newState) r =
     (if pipelineState r = INIT \<and> pipeline r = Some src \<and> newState = GST_STATE_PLAYING
      then (let r1 = r\<lparr>pipelineState := PLAYING\<rparr>
            in if startRequest r1
               then (Normal, (emit StartResolve r1)\<lparr>startRequest := False\<rparr>)
               else (Throw ''TypeError: this._startRequest is undefined'', r1))
      else (Normal, r))"
| "onBusMessage w MSG_EOS r =
     (case pipelineState r of
        STOPPED \<Rightarrow> (Normal, r)
      | ERROR \<Rightarrow> (Normal, r)
      | PLAYING \<Rightarrow> handleFatalPipelineError w ''Unexpected EOS message'' (addRecentItem r)
      | INIT \<Rightarrow> handleFatalPipelineError w ''Unexpected EOS message while in state INIT'' r
      | FLUSHING \<Rightarrow>
          (case stopSession w (unwatchSender (teardownPipeline w (addRecentItem r))) of
             (Throw e, r3) \<Rightarrow> (Throw e, r3)
           | (Normal, r3) \<Rightarrow>
               (if stopRequest r3
                then (Normal, (emit StopResolve r3)\<lparr>stopRequest := False\<rparr>)
                else (Throw ''TypeError: this._stopRequest is undefined'', r3))))"
| "onBusMessage w (MSG_ERROR text) r =
     (case pipelineState r of
        STOPPED \<Rightarrow> (Normal, r)
      | ERROR \<Rightarrow> (Normal, r)
      | _ \<Rightarrow> handleFatalPipelineError w
             (''GStreamer error while in state '' @ PipelineState_name (pipelineState r)
                @ '': '' @ text) r)"
| "onBusMessage w MSG_OTHER r = (Normal, r)"

subsection \<open>The callbacks a Recorder has registered\<close>

text \<open>
  The Recorder registers four callbacks: the name watcher's "vanished", the session
  proxy's \<^verbatim>\<open>Closed\<close>, the stream proxy's \<^verbatim>\<open>PipeWireStreamAdded\<close> and the watch on
  the pipeline bus. The main loop runs one of them at a time.
\<close>

datatype event =
    SenderVanished
  | SessionClosed
  | PipeWireStreamAdded nat
  | BusMessage message

fun deliver :: "world \<Rightarrow> event \<Rightarrow> Recorder \<Rightarrow> completion \<times> Recorder" where
  "deliver w SenderVanished r = senderVanished w r"
| "deliver w SessionClosed r = onSessionClosed w r"
| "deliver w (PipeWireStreamAdded nodeId) r = startPipeline w nodeId r"
| "deliver w (BusMessage m) r = onBusMessage w m r"

text \<open>The three origins of the fatal-error path.\<close>

datatype failure = SenderGone | SessionGone | PipelineFatal string

fun fail :: "world \<Rightarrow> failure \<Rightarrow> Recorder \<Rightarrow> completion \<times> Recorder" where
  "fail w SenderGone r = senderVanished w r"
| "fail w SessionGone r = onSessionClosed w r"
| "fail w (PipelineFatal m) r = handleFatalPipelineError w m r"

section \<open>Destination file names\<close>

text \<open>
  \<^verbatim>\<open>_generateFilePath\<close> asks GLib for the time, for the formatting of a time, for
  the user's directories and for the joining of path elements. These answers are
  parameters: \<open>now_local k\<close> is the clock as read for the \<open>k\<close>-th time during one
  call (each \<^verbatim>\<open>%d\<close> and \<^verbatim>\<open>%t\<close> reads the clock anew), and a directory GLib does not
  know is \<open>None\<close>.
\<close>

record 'dt glib =
  now_local :: "nat \<Rightarrow> 'dt"
  date_time_format :: "'dt \<Rightarrow> string \<Rightarrow> string"
  path_is_absolute :: "string \<Rightarrow> bool"
  build_filenamev :: "string list \<Rightarrow> string"
  user_special_dir_videos :: "string option"
  home_dir :: string

definition getAbsolutePath :: "'dt glib \<Rightarrow> string \<Rightarrow> string" where
  "getAbsolutePath g name =
     (if path_is_absolute g name then name
      else (let videoDir = (case user_special_dir_videos g of
                              None \<Rightarrow> home_dir g
                            | Some d \<Rightarrow> if d = [] then home_dir g else d)
            in build_filenamev g [videoDir, name]))"

text \<open>
  The loop over the characters of the template keeps the file name built so far and
  the flag \<^verbatim>\<open>escape\<close>; the model also keeps the warnings logged and the number of
  clock readings taken.
\<close>

record scan =
  filename :: string
  escape :: bool
  warnings :: "string list"
  clockReads :: nat

definition scan_start :: scan where
  "scan_start = \<lparr>filename = [], escape = False, warnings = [], clockReads = 0\<rparr>"

definition scan_char :: "'dt glib \<Rightarrow> scan \<Rightarrow> char \<Rightarrow> scan" where
  "scan_char g s c =
     (if escape s then
        (if c = CHR ''%'' then s\<lparr>filename := filename s @ ''%'', escape := False\<rparr>
         else if c = CHR ''d'' then
           s\<lparr>filename := filename s
                  @ date_time_format g (now_local g (clockReads s)) ''%Y-%m-%d'',
             clockReads := Suc (clockReads s), escape := False\<rparr>
         else if c = CHR ''t'' then
           s\<lparr>filename := filename s
                  @ date_time_format g (now_local g (clockReads s)) ''%H-%M-%S'',
             clockReads := Suc (clockReads s), escape := False\<rparr>
         else s\<lparr>warnings := warnings s @ [''Warning: Unknown escape '' @ [c]],
                escape := False\<rparr>)
      else if c = CHR ''%'' then s\<lparr>escape := True\<rparr>
      else s\<lparr>filename := filename s @ [c]\<rparr>)"

definition scan_template :: "'dt glib \<Rightarrow> string \<Rightarrow> scan" where
  "scan_template g template = foldl (scan_char g) scan_start template"

text \<open>The file name after the loop: a pending escape adds a percent sign.\<close>

definition scanned_name :: "scan \<Rightarrow> string" where
  "scanned_name s = (if escape s then filename s @ ''%'' else filename s)"

text \<open>The result is the path together with the warnings the call has logged.\<close>

definition generateFilePath :: "'dt glib \<Rightarrow> string \<Rightarrow> string \<times> string list" where
  "generateFilePath g template =
     (let s = scan_template g template
      in (getAbsolutePath g (scanned_name s), warnings s))"

text \<open>
  The expansion as the specification words it, escape by escape: \<^verbatim>\<open>%d\<close> is the
  date, \<^verbatim>\<open>%t\<close> the time, \<^verbatim>\<open>%%\<close> a percent sign, any other escape nothing; a
  character outside an escape is copied. \<open>k\<close> counts the clock readings.
\<close>

fun expand :: "'dt glib \<Rightarrow> nat \<Rightarrow> string \<Rightarrow> string" where
  "expand g k [] = []"
| "expand g k [c] = [c]"
| "expand g k (c # d # rest) =
     (if c = CHR ''%'' then
        (if d = CHR ''%'' then CHR ''%'' # expand g k rest
         else if d = CHR ''d'' then
           date_time_format g (now_local g k) ''%Y-%m-%d'' @ expand g (Suc k) rest
         else if d = CHR ''t'' then
           date_time_format g (now_local g k) ''%H-%M-%S'' @ expand g (Suc k) rest
         else expand g k rest)
      else c # expand g k (d # rest))"

text \<open>The characters of the unknown escapes of a template, in order.\<close>

fun unknown_escapes :: "string \<Rightarrow> string" where
  "unknown_escapes [] = []"
| "unknown_escapes [c] = []"
| "unknown_escapes (c # d # rest) =
     (if c = CHR ''%'' then
        (if d = CHR ''%'' \<or> d = CHR ''d'' \<or> d = CHR ''t'' then unknown_escapes rest
         else d # unknown_escapes rest)
      else unknown_escapes (d # rest))"

section \<open>The service\<close>

text \<open>
  The registry of the service is a JavaScript \<^verbatim>\<open>Map\<close> from the sender of a call to
  its Recorder: an association list; \<^verbatim>\<open>get\<close> is \<open>map_of\<close>, \<^verbatim>\<open>set\<close> is
  \<open>AList.update\<close>, \<^verbatim>\<open>delete\<close> is \<open>AList.delete\<close> and \<^verbatim>\<open>size\<close> counts the keys.
\<close>

record ScreencastService =
  recorders :: "(string \<times> Recorder) list"
  holdCount :: int
  messages :: "string list"

definition size_of :: "(string \<times> Recorder) list \<Rightarrow> nat" where
  "size_of al = card (fst ` set al)"

text \<open>
  Modelled from the spec: \<^verbatim>\<open>hold\<close> and \<^verbatim>\<open>release\<close> belong to the base class
  \<^verbatim>\<open>ServiceImplementation\<close> (\<^verbatim>\<open>js/dbusServices/dbusService.js\<close>), which is not
  among the sources. The specification speaks of a process keep-alive counter that is
  incremented and decremented; \<open>hold\<close> adds one to it and \<open>release\<close> takes one away.
\<close>

definition hold :: "ScreencastService \<Rightarrow> ScreencastService" where
  "hold svc = svc\<lparr>holdCount := holdCount svc + 1\<rparr>"

definition release :: "ScreencastService \<Rightarrow> ScreencastService" where
  "release svc = svc\<lparr>holdCount := holdCount svc - 1\<rparr>"

definition log_message :: "string \<Rightarrow> ScreencastService \<Rightarrow> ScreencastService" where
  "log_message m svc = svc\<lparr>messages := messages svc @ [m]\<rparr>"

definition removeRecorder :: "string \<Rightarrow> ScreencastService \<Rightarrow> ScreencastService" where
  "removeRecorder sender svc =
     (if map_of (recorders svc) sender = None then svc
      else (let svc1 = svc\<lparr>recorders := AList.delete sender (recorders svc)\<rparr>
            in if size_of (recorders svc1) = 0 then release svc1 else svc1))"

definition addRecorder :: "string \<Rightarrow> Recorder \<Rightarrow> ScreencastService \<Rightarrow> ScreencastService" where
  "addRecorder sender recorder svc =
     (let svc1 = svc\<lparr>recorders := AList.update sender recorder (recorders svc)\<rparr>
      in if size_of (recorders svc1) = 1 then hold svc1 else svc1)"

text \<open>
  An \<^verbatim>\<open>async\<close> method runs up to its \<^verbatim>\<open>await\<close> and goes on when the awaited
  promise is settled. The first part ends in one of three ways: the invocation has
  been answered, an exception has left the method (the invocation is then never
  answered), or the method waits for a promise, keeping what it needs afterwards.
\<close>

datatype ('a, 'c) call = Replied 'a | Uncaught string | Awaiting promise 'c

datatype settled = Fulfilled | RejectedWith string

text \<open>
  A Recorder is an object shared between the registry and the method that works on
  it; what \<^verbatim>\<open>startRecording\<close> and \<^verbatim>\<open>stopRecording\<close> change in it is written back
  under its key.
\<close>

definition ScreencastAsync ::
  "world \<Rightarrow> 'dt glib \<Rightarrow> string \<times> options \<Rightarrow> string \<Rightarrow> ScreencastService
     \<Rightarrow> (bool \<times> string, string) call \<times> ScreencastService" where
  "ScreencastAsync w g params sender svc =
     (if disable_save_to_disk w then (Replied (False, ''''), svc)
      else if map_of (recorders svc) sender \<noteq> None then (Replied (False, ''''), svc)
      else
        (case CreateSessionSync w of
           Inl e \<Rightarrow> (Uncaught e, svc)
         | Inr sessionPath \<Rightarrow>
             (case params of (fileTemplate, opts) \<Rightarrow>
                (case ScreenSize w of
                   None \<Rightarrow> (Uncaught ''TypeError: this._introspectProxy.ScreenSize is not iterable'', svc)
                 | Some (screenWidth, screenHeight) \<Rightarrow>
                     (case generateFilePath g fileTemplate of (path, warns) \<Rightarrow>
                        (let svc1 = svc\<lparr>messages := messages svc @ warns\<rparr>
                         in case new_Recorder w sessionPath 0 0 screenWidth screenHeight
                                   path opts sender of
                              Inl e \<Rightarrow>
                                (Replied (False, ''''),
                                 log_message (''Failed to create recorder: '' @ e) svc1)
                            | Inr recorder \<Rightarrow>
                                (let svc2 = addRecorder sender recorder svc1
                                 in case startRecording w recorder of (p, recorder') \<Rightarrow>
                                      (Awaiting p path,
                                       svc2\<lparr>recorders :=
                                         AList.update sender recorder' (recorders svc2)\<rparr>))))))))"

definition ScreencastAsync_settled ::
  "settled \<Rightarrow> string \<Rightarrow> string \<Rightarrow> ScreencastService \<Rightarrow> (bool \<times> string) \<times> ScreencastService" where
  "ScreencastAsync_settled outcome path sender svc =
     (case outcome of
        Fulfilled \<Rightarrow> ((True, path), svc)
      | RejectedWith e \<Rightarrow>
          ((False, ''''),
           removeRecorder sender (log_message (''Failed to start recorder: '' @ e) svc)))"

definition ScreencastAreaAsync ::
  "world \<Rightarrow> 'dt glib \<Rightarrow> int \<times> int \<times> int \<times> int \<times> string \<times> options \<Rightarrow> string
     \<Rightarrow> ScreencastService \<Rightarrow> (bool \<times> string, string) call \<times> ScreencastService" where
  "ScreencastAreaAsync w g params sender svc =
     (if disable_save_to_disk w then (Replied (False, ''''), svc)
      else if map_of (recorders svc) sender \<noteq> None then (Replied (False, ''''), svc)
      else
        (case CreateSessionSync w of
           Inl e \<Rightarrow> (Uncaught e, svc)
         | Inr sessionPath \<Rightarrow>
             (case params of (x0, y0, width0, height0, fileTemplate, opts) \<Rightarrow>
                (case generateFilePath g fileTemplate of (path, warns) \<Rightarrow>
                   (let svc1 = svc\<lparr>messages := messages svc @ warns\<rparr>
                    in case new_Recorder w sessionPath x0 y0 width0 height0 path opts sender of
                         Inl e \<Rightarrow>
                           (Replied (False, ''''),
                            log_message (''Failed to create recorder: '' @ e) svc1)
                       | Inr recorder \<Rightarrow>
                           (let svc2 = addRecorder sender recorder svc1
                            in case startRecording w recorder of (p, recorder') \<Rightarrow>
                                 (Awaiting p path,
                                  svc2\<lparr>recorders :=
                                    AList.update sender recorder' (recorders svc2)\<rparr>)))))))"

definition ScreencastAreaAsync_settled ::
  "settled \<Rightarrow> string \<Rightarrow> string \<Rightarrow> ScreencastService \<Rightarrow> (bool \<times> string) \<times> ScreencastService" where
  "ScreencastAreaAsync_settled outcome path sender svc =
     (case outcome of
        Fulfilled \<Rightarrow> ((True, path), svc)
      | RejectedWith e \<Rightarrow>
          ((False, ''''),
           removeRecorder sender (log_message (''Failed to start recorder: '' @ e) svc)))"

definition StopScreencastAsync ::
  "string \<Rightarrow> ScreencastService \<Rightarrow> (bool, unit) call \<times> ScreencastService" where
  "StopScreencastAsync sender svc =
     (case map_of (recorders svc) sender of
        None \<Rightarrow> (Replied False, svc)
      | Some recorder \<Rightarrow>
          (case stopRecording recorder of (p, recorder') \<Rightarrow>
             (Awaiting p (),
              svc\<lparr>recorders := AList.update sender recorder' (recorders svc)\<rparr>)))"

definition StopScreencastAsync_settled ::
  "settled \<Rightarrow> string \<Rightarrow> ScreencastService \<Rightarrow> bool \<times> ScreencastService" where
  "StopScreencastAsync_settled outcome sender svc =
     (let svc1 = (case outcome of
                    Fulfilled \<Rightarrow> svc
                  | RejectedWith e \<Rightarrow>
                      log_message (sender @ '': Error while stopping recorder: '' @ e) svc)
      in (True, removeRecorder sender svc1))"

text \<open>
  What can happen to the service, one at a time: a call of one of the three methods,
  the settling of the promise such a call waits for, a callback of the Recorder
  registered for a sender, and the error callback of a Recorder that was created for
  a sender (\<^verbatim>\<open>() => this._removeRecorder(sender)\<close>) and may since have left the
  registry. A registered Recorder that runs its error callback during one of its own
  callbacks removes its sender from the registry.
\<close>

datatype 'dt service_event =
    CallScreencast world "'dt glib" "string \<times> options" string
  | CallScreencastArea world "'dt glib" "int \<times> int \<times> int \<times> int \<times> string \<times> options" string
  | StartSettled settled string string
  | AreaStartSettled settled string string
  | CallStopScreencast string
  | StopSettled settled string
  | RecorderCallback world string event
  | ErrorCallback string

fun service_step :: "ScreencastService \<Rightarrow> 'dt service_event \<Rightarrow> ScreencastService" where
  "service_step svc (CallScreencast w g params sender) = snd (ScreencastAsync w g params sender svc)"
| "service_step svc (CallScreencastArea w g params sender) =
     snd (ScreencastAreaAsync w g params sender svc)"
| "service_step svc (StartSettled outcome path sender) =
     snd (ScreencastAsync_settled outcome path sender svc)"
| "service_step svc (AreaStartSettled outcome path sender) =
     snd (ScreencastAreaAsync_settled outcome path sender svc)"
| "service_step svc (CallStopScreencast sender) = snd (StopScreencastAsync sender svc)"
| "service_step svc (StopSettled outcome sender) = snd (StopScreencastAsync_settled outcome sender svc)"
| "service_step svc (RecorderCallback w sender ev) =
     (case map_of (recorders svc) sender of
        None \<Rightarrow> svc
      | Some recorder \<Rightarrow>
          (case deliver w ev recorder of (c, recorder') \<Rightarrow>
             (let svc1 = svc\<lparr>recorders := AList.update sender recorder' (recorders svc)\<rparr>
              in if onErrorCallback recorder \<and> \<not> onErrorCallback recorder'
                 then removeRecorder sender svc1
                 else svc1)))"
| "service_step svc (ErrorCallback sender) = removeRecorder sender svc"

definition service_run :: "ScreencastService \<Rightarrow> 'dt service_event list \<Rightarrow> ScreencastService" where
  "service_run svc evs = foldl service_step svc evs"

text \<open>
  The counter and the registry agree when the counter stands one above its value at
  rest, \<open>c0\<close>, exactly while the registry is not empty.
\<close>

definition keep_alive_ok :: "int \<Rightarrow> ScreencastService \<Rightarrow> bool" where
  "keep_alive_ok c0 svc =
     (holdCount svc = c0 + (if size_of (recorders svc) = 0 then 0 else 1))"

section \<open>Reading a Recorder's effects\<close>

text \<open>
  What the three releasing calls (\<^verbatim>\<open>_teardownPipeline\<close>, \<^verbatim>\<open>_unwatchSender\<close>,
  \<^verbatim>\<open>_stopSession\<close>) do to the outside for a Recorder in a given state, and what
  the whole fatal-error path does when it runs to its end, written as lists.
\<close>

definition teardown_steps :: "world \<Rightarrow> Recorder \<Rightarrow> effect list" where
  "teardown_steps w r =
     (case pipeline r of
        None \<Rightarrow> []
      | Some p \<Rightarrow> PipelineSetStateNull #
          (if set_state_null w \<noteq> GST_SUCCESS
           then [Log ''Failed to set pipeline state to NULL''] else []))"

definition release_steps :: "world \<Rightarrow> Recorder \<Rightarrow> effect list" where
  "release_steps w r =
     teardown_steps w r
     @ (if nameWatchId r \<noteq> 0 then [UnwatchName (nameWatchId r)] else [])
     @ (if sessionState r = SESSION_ACTIVE then [SessionStopSync] else [])"

definition fatal_path_steps :: "world \<Rightarrow> string \<Rightarrow> Recorder \<Rightarrow> effect list" where
  "fatal_path_steps w msg r =
     release_steps w r
     @ [Log (''Recorder error: '' @ msg)]
     @ (if onErrorCallback r then [OnErrorCallback] else [])
     @ (if startRequest r then [StartReject msg] else [])
     @ (if stopRequest r then [StopReject msg] else [])"

text \<open>The fields of a Recorder after the three releasing calls.\<close>

definition released :: "Recorder \<Rightarrow> Recorder" where
  "released r =
     r\<lparr>pipelineState := (if pipeline r = None then pipelineState r else STOPPED),
       pipeline := None,
       nameWatchId := 0,
       sessionState := (if sessionState r = SESSION_ACTIVE then SESSION_STOPPED
                        else sessionState r)\<rparr>"

text \<open>The effects a Recorder has gained since an earlier state of it.\<close>

definition since :: "Recorder \<Rightarrow> Recorder \<Rightarrow> effect list" where
  "since r r' = drop (length (effects r)) (effects r')"

text \<open>
  Two orders on the steps of the fatal-error path. The specification lists: pipeline,
  sender watch, remote session, the rejection of the pending outcome, the registry.
  The code has the registry before the rejections, and the start outcome before the
  stop outcome. Log lines and all other effects have no rank. A list of effects is in
  an order when the ranks of its steps never decrease.
\<close>

fun specified_rank :: "effect \<Rightarrow> nat option" where
  "specified_rank PipelineSetStateNull = Some 0"
| "specified_rank (UnwatchName n) = Some 1"
| "specified_rank SessionStopSync = Some 2"
| "specified_rank (StartReject e) = Some 3"
| "specified_rank (StopReject e) = Some 3"
| "specified_rank OnErrorCallback = Some 4"
| "specified_rank e = None"

fun code_rank :: "effect \<Rightarrow> nat option" where
  "code_rank PipelineSetStateNull = Some 0"
| "code_rank (UnwatchName n) = Some 1"
| "code_rank SessionStopSync = Some 2"
| "code_rank OnErrorCallback = Some 3"
| "code_rank (StartReject e) = Some 4"
| "code_rank (StopReject e) = Some 5"
| "code_rank e = None"

definition in_specified_order :: "effect list \<Rightarrow> bool" where
  "in_specified_order es = sorted (List.map_filter specified_rank es)"

definition in_code_order :: "effect list \<Rightarrow> bool" where
  "in_code_order es = sorted (List.map_filter code_rank es)"

text \<open>
  The stages of the pipeline state; STOPPED and ERROR are both the last stage.
\<close>

fun stage :: "PipelineState \<Rightarrow> nat" where
  "stage INIT = 0"
| "stage PLAYING = 1"
| "stage FLUSHING = 2"
| "stage STOPPED = 3"
| "stage ERROR = 3"

text \<open>
  A Recorder that the fatal-error path has left behind: the sender is not watched, the
  session is not active, the error callback is gone and no outcome is pending.
\<close>

definition retired :: "Recorder \<Rightarrow> bool" where
  "retired r =
     (nameWatchId r = 0 \<and> sessionState r \<noteq> SESSION_ACTIVE \<and> \<not> onErrorCallback r
      \<and> \<not> startRequest r \<and> \<not> stopRequest r)"

text \<open>
  The steps that must not happen a second time: stopping the sender watch, asking the
  remote session to stop, notifying the registry, settling an outcome.
\<close>

fun repeated_step :: "effect \<Rightarrow> bool" where
  "repeated_step (UnwatchName n) = True"
| "repeated_step SessionStopSync = True"
| "repeated_step OnErrorCallback = True"
| "repeated_step StartResolve = True"
| "repeated_step (StartReject e) = True"
| "repeated_step StopResolve = True"
| "repeated_step (StopReject e) = True"
| "repeated_step e = False"

text \<open>
  Callbacks run one after the other, each in the world of its moment; an exception
  that leaves a callback is logged by the main loop and the next callback finds the
  Recorder as the failed one left it.
\<close>

fun stream_added :: "world \<times> event \<Rightarrow> bool" where
  "stream_added (w, PipeWireStreamAdded n) = True"
| "stream_added (w, e) = False"

definition deliver_all :: "(world \<times> event) list \<Rightarrow> Recorder \<Rightarrow> Recorder" where
  "deliver_all evs r = foldl (\<lambda>r' we. snd (deliver (fst we) (snd we) r')) r evs"

text \<open>
  A later state \<open>r'\<close> of a retired Recorder \<open>r\<close> is quiet when it is retired too, has
  only gained effects, none of them a step that must not repeat, and has kept a
  stopped session stopped.
\<close>

definition quiet :: "Recorder \<Rightarrow> Recorder \<Rightarrow> bool" where
  "quiet r r' =
     (retired r'
      \<and> take (length (effects r)) (effects r') = effects r
      \<and> filter repeated_step (since r r') = []
      \<and> (sessionState r = SESSION_STOPPED \<longrightarrow> sessionState r' = SESSION_STOPPED))"

section \<open>Examples\<close>

text \<open>A world in which every call succeeds.\<close>

definition world_ok :: world where
  "world_ok = \<lparr>disable_save_to_disk = False,
               CreateSessionSync = Inr ''/org/gnome/Mutter/ScreenCast/Session/u1'',
               ScreenSize = Some (1920, 1080),
               make_directory_with_parents = MKDIR_EXISTS,
               watch_name = 7,
               SessionProxy_error = None,
               RecordAreaSync_error = None,
               StreamProxy_error = None,
               StartSync_error = None,
               parse_launch_full = Inr 1,
               set_state_playing = GST_ASYNC,
               set_state_null = GST_SUCCESS,
               StopSync_error = None\<rparr>"

definition no_options :: options where
  "no_options = \<lparr>opt_pipeline = None, opt_framerate = None, opt_draw_cursor = None\<rparr>"

text \<open>A Recorder as the constructor leaves it, for the whole screen.\<close>

definition recorder_new :: Recorder where
  "recorder_new =
     \<lparr>areaX = 0, areaY = 0, areaWidth = 1920, areaHeight = 1080,
      filePath = ''/home/u/Videos/cast.webm'',
      pipelineString = DEFAULT_PIPELINE, framerate = 30, drawCursor = True,
      pipelineState = INIT, pipeline = None, nameWatchId = 7,
      sessionState = SESSION_INIT, onErrorCallback = True,
      startRequest = False, stopRequest = False,
      effects = [WatchName '':1.42'']\<rparr>"

text \<open>The same Recorder after \<^verbatim>\<open>startRecording\<close>, still waiting for the pipeline.\<close>

definition recorder_starting :: Recorder where
  "recorder_starting = snd (startRecording world_ok recorder_new)"

text \<open>... after the stream has been added and the pipeline has reported PLAYING.\<close>

definition recorder_playing :: Recorder where
  "recorder_playing =
     snd (onBusMessage world_ok (MSG_STATE_CHANGED 1 GST_STATE_PLAYING)
            (snd (startPipeline world_ok 5 recorder_starting)))"

text \<open>... and after \<^verbatim>\<open>stopRecording\<close> has asked the pipeline to flush.\<close>

definition recorder_flushing :: Recorder where
  "recorder_flushing = snd (stopRecording recorder_playing)"

text \<open>
  A world in which Mutter refuses \<^verbatim>\<open>RecordArea\<close>, and the Recorder whose
  \<^verbatim>\<open>startRecording\<close> has failed there: its session is still in INIT.
\<close>

definition world_area_fails :: world where
  "world_area_fails = world_ok\<lparr>RecordAreaSync_error := Some ''Invalid area''\<rparr>"

definition recorder_start_failed :: Recorder where
  "recorder_start_failed = snd (startRecording world_area_fails recorder_new)"

text \<open>A GLib for the examples: a clock that stands still and a plain join of paths.\<close>

definition glib_example :: "unit glib" where
  "glib_example =
     \<lparr>now_local = (\<lambda>k. ()),
      date_time_format = (\<lambda>t f. if f = ''%Y-%m-%d'' then ''2026-11-03''
                                 else if f = ''%H-%M-%S'' then ''08-55-00'' else f),
      path_is_absolute = (\<lambda>p. take 1 p = ''/''),
      build_filenamev = (\<lambda>ps. foldr (\<lambda>p q. if q = [] then p else p @ ''/'' @ q) ps []),
      user_special_dir_videos = Some ''/home/u/Videos'',
      home_dir = ''/home/u''\<rparr>"

definition service_idle :: ScreencastService where
  "service_idle = \<lparr>recorders = [], holdCount = 0, messages = []\<rparr>"

text \<open>A world in which Mutter does not answer \<^verbatim>\<open>CreateSession\<close>.\<close>

definition world_no_session :: world where
  "world_no_session =
     world_ok\<lparr>CreateSessionSync := Inl ''GDBus.Error: org.freedesktop.DBus.Error.ServiceUnknown''\<rparr>"

text \<open>One whole recording, as the service sees it.\<close>

definition events_example :: "unit service_event list" where
  "events_example =
     [CallScreencast world_ok glib_example (''cast.webm'', no_options) '':1.42'',
      RecorderCallback world_ok '':1.42'' (PipeWireStreamAdded 5),
      RecorderCallback world_ok '':1.42'' (BusMessage (MSG_STATE_CHANGED 1 GST_STATE_PLAYING)),
      StartSettled Fulfilled ''/home/u/Videos/cast.webm'' '':1.42'',
      CallStopScreencast '':1.42'',
      RecorderCallback world_ok '':1.42'' (BusMessage MSG_EOS),
      StopSettled Fulfilled '':1.42'']"

text \<open>A world in which the remote stop call throws, and one in which the pipeline does not start.\<close>

definition world_stop_fails :: world where
  "world_stop_fails =
     world_ok\<lparr>StopSync_error := Some ''GDBus.Error: org.freedesktop.DBus.Error.NoReply''\<rparr>"

definition world_play_fails :: world where
  "world_play_fails = world_ok\<lparr>set_state_playing := GST_FAILURE\<rparr>"

text \<open>The playing example Recorder after a fatal pipeline error.\<close>

definition recorder_failed :: Recorder where
  "recorder_failed = snd (handleFatalPipelineError world_ok ''boom'' recorder_playing)"

section \<open>The example Recorders\<close>

text \<open>The examples are what the methods compute, step by step.\<close>

lemma new_Recorder_example:
  "new_Recorder world_ok ''/org/gnome/Mutter/ScreenCast/Session/u1''
     0 0 1920 1080 ''/home/u/Videos/cast.webm'' no_options '':1.42'' = Inr recorder_new"
  by (simp add: recorder_new_def new_Recorder_def world_ok_def
      no_options_def applyOptions_def watchSender_def emit_def
      DEFAULT_FRAMERATE_def DEFAULT_DRAW_CURSOR_def)

lemma recorder_starting_eq:
  "recorder_starting =
     \<lparr>areaX = 0, areaY = 0, areaWidth = 1920, areaHeight = 1080,
      filePath = ''/home/u/Videos/cast.webm'',
      pipelineString = DEFAULT_PIPELINE, framerate = 30, drawCursor = True,
      pipelineState = INIT, pipeline = None, nameWatchId = 7,
      sessionState = SESSION_ACTIVE, onErrorCallback = True,
      startRequest = True, stopRequest = False,
      effects = [WatchName '':1.42'', SessionRecordAreaSync, StreamConnectSignal,
                 SessionStartSync]\<rparr>"
  by (simp add: recorder_starting_def recorder_new_def world_ok_def emit_def
      startRecording_def)

lemma recorder_playing_eq:
  "recorder_playing =
     \<lparr>areaX = 0, areaY = 0, areaWidth = 1920, areaHeight = 1080,
      filePath = ''/home/u/Videos/cast.webm'',
      pipelineString = DEFAULT_PIPELINE, framerate = 30, drawCursor = True,
      pipelineState = PLAYING, pipeline = Some 1, nameWatchId = 7,
      sessionState = SESSION_ACTIVE, onErrorCallback = True,
      startRequest = False, stopRequest = False,
      effects = [WatchName '':1.42'', SessionRecordAreaSync, StreamConnectSignal,
                 SessionStartSync, BusAddWatch, PipelineSetStatePlaying, StartResolve]\<rparr>"
  by (simp add: recorder_playing_def recorder_starting_eq startPipeline_def
      ensurePipeline_def world_ok_def emit_def)

lemma recorder_flushing_eq:
  "recorder_flushing =
     \<lparr>areaX = 0, areaY = 0, areaWidth = 1920, areaHeight = 1080,
      filePath = ''/home/u/Videos/cast.webm'',
      pipelineString = DEFAULT_PIPELINE, framerate = 30, drawCursor = True,
      pipelineState = FLUSHING, pipeline = Some 1, nameWatchId = 7,
      sessionState = SESSION_ACTIVE, onErrorCallback = True,
      startRequest = False, stopRequest = True,
      effects = [WatchName '':1.42'', SessionRecordAreaSync, StreamConnectSignal,
                 SessionStartSync, BusAddWatch, PipelineSetStatePlaying, StartResolve,
                 PipelineSendEos]\<rparr>"
  by (simp add: recorder_flushing_def recorder_playing_eq stopRecording_def emit_def)

section \<open>Stopping while a start is pending\<close>

text \<open>
  C4. For every Recorder whose start outcome is still pending, \<^verbatim>\<open>stopRecording\<close>
  fails at once with the error "Unable to stop recorder while still starting", and the
  Recorder is left exactly as it was: pipeline state and session state are unchanged,
  no stop outcome is recorded and no end-of-stream event (flush) is sent.
\<close>

theorem stopRecording_while_starting:
  assumes "startRequest r"
  shows "fst (stopRecording r) = Rejected ''Unable to stop recorder while still starting''
       \<and> snd (stopRecording r) = r
       \<and> pipelineState (snd (stopRecording r)) = pipelineState r
       \<and> sessionState (snd (stopRecording r)) = sessionState r
       \<and> stopRequest (snd (stopRecording r)) = stopRequest r
       \<and> effects (snd (stopRecording r)) = effects r"
  using assms by (simp add: stopRecording_def)

text \<open>An instance: the example Recorder between \<^verbatim>\<open>startRecording\<close> and PLAYING.\<close>

theorem stopRecording_while_starting_witness:
  "startRequest recorder_starting
   \<and> fst (stopRecording recorder_starting)
       = Rejected ''Unable to stop recorder while still starting''
   \<and> snd (stopRecording recorder_starting) = recorder_starting
   \<and> pipelineState (snd (stopRecording recorder_starting)) = INIT
   \<and> sessionState (snd (stopRecording recorder_starting)) = SESSION_ACTIVE
   \<and> \<not> stopRequest (snd (stopRecording recorder_starting))
   \<and> PipelineSendEos \<notin> set (effects (snd (stopRecording recorder_starting)))"
proof -
  have h: "startRequest recorder_starting"
    by (simp add: recorder_starting_eq)
  show ?thesis
    using h stopRecording_while_starting [OF h] by (simp add: recorder_starting_eq)
qed

section \<open>The fatal-error path in closed form\<close>

text \<open>
  Each of the three releasing steps changes a few fields and appends its effects; so
  does their sequence, and with it \<^verbatim>\<open>_bailOutOnError\<close>, whether the remote stop
  call returns or throws.
\<close>

lemma teardownPipeline_eq:
  "teardownPipeline w r =
     r\<lparr>pipelineState := (if pipeline r = None then pipelineState r else STOPPED),
       pipeline := None, effects := effects r @ teardown_steps w r\<rparr>"
  by (cases "pipeline r") (simp_all add: teardownPipeline_def teardown_steps_def emit_def Let_def)

lemma unwatchSender_eq:
  "unwatchSender r =
     r\<lparr>nameWatchId := 0,
       effects := effects r @ (if nameWatchId r \<noteq> 0 then [UnwatchName (nameWatchId r)] else [])\<rparr>"
  by (simp add: unwatchSender_def emit_def)

lemma stopSession_eq:
  "stopSession w r =
     (if sessionState r = SESSION_ACTIVE
      then (case StopSync_error w of None \<Rightarrow> Normal | Some e \<Rightarrow> Throw e)
      else Normal,
      r\<lparr>sessionState := (if sessionState r = SESSION_ACTIVE then SESSION_STOPPED
                           else sessionState r),
        effects := effects r @ (if sessionState r = SESSION_ACTIVE then [SessionStopSync] else [])\<rparr>)"
  by (simp add: stopSession_def emit_def Let_def split: option.splits)

lemma release_eq:
  "stopSession w (unwatchSender (teardownPipeline w r)) =
     (if sessionState r = SESSION_ACTIVE
      then (case StopSync_error w of None \<Rightarrow> Normal | Some e \<Rightarrow> Throw e)
      else Normal,
      (released r)\<lparr>effects := effects r @ release_steps w r\<rparr>)"
  by (simp add: stopSession_eq unwatchSender_eq teardownPipeline_eq released_def release_steps_def)

lemma bailOutOnError_Normal:
  assumes "StopSync_error w = None \<or> sessionState r \<noteq> SESSION_ACTIVE"
  shows "bailOutOnError w msg r =
     (Normal, (released r)\<lparr>onErrorCallback := False, startRequest := False, stopRequest := False,
                effects := effects r @ fatal_path_steps w msg r\<rparr>)"
  using assms
  by (auto simp add: bailOutOnError_def release_eq fatal_path_steps_def emit_def released_def Let_def)

lemma bailOutOnError_Throw:
  assumes "StopSync_error w = Some e" "sessionState r = SESSION_ACTIVE"
  shows "bailOutOnError w msg r =
     (Throw e, (released r)\<lparr>effects := effects r @ release_steps w r\<rparr>)"
  using assms
  by (simp add: bailOutOnError_def release_eq)

lemma since_append [simp]: "since r (r'\<lparr>effects := effects r @ es\<rparr>) = es"
  by (simp add: since_def)

lemma since_emit [simp]: "since r (emit e r) = [e]"
  by (simp add: since_def emit_def)

lemma since_self [simp]: "since r r = []"
  by (simp add: since_def)

lemma in_code_order_release: "in_code_order (release_steps w r)"
  by (cases "pipeline r")
     (simp_all add: in_code_order_def release_steps_def teardown_steps_def List.map_filter_simps)

lemma in_code_order_fatal: "in_code_order (fatal_path_steps w msg r)"
  by (cases "pipeline r")
     (simp_all add: in_code_order_def fatal_path_steps_def release_steps_def teardown_steps_def
        List.map_filter_simps)

lemma bailOutOnError_in_code_order: "in_code_order (since r (snd (bailOutOnError w msg r)))"
proof (cases "StopSync_error w = None \<or> sessionState r \<noteq> SESSION_ACTIVE")
  case True
  then show ?thesis
    by (simp add: bailOutOnError_Normal in_code_order_fatal)
next
  case False
  then obtain e where "StopSync_error w = Some e" "sessionState r = SESSION_ACTIVE"
    by auto
  then show ?thesis
    by (simp add: bailOutOnError_Throw in_code_order_release)
qed

lemma bailOutOnError_pipelineState:
  "pipelineState (snd (bailOutOnError w msg r)) = (if pipeline r = None then pipelineState r else STOPPED)"
  "pipeline (snd (bailOutOnError w msg r)) = None"
proof -
  show "pipelineState (snd (bailOutOnError w msg r)) = (if pipeline r = None then pipelineState r else STOPPED)"
  proof (cases "StopSync_error w = None \<or> sessionState r \<noteq> SESSION_ACTIVE")
    case True
    then show ?thesis by (simp add: bailOutOnError_Normal released_def)
  next
    case False
    then obtain e where "StopSync_error w = Some e" "sessionState r = SESSION_ACTIVE" by auto
    then show ?thesis by (simp add: bailOutOnError_Throw released_def)
  qed
  show "pipeline (snd (bailOutOnError w msg r)) = None"
  proof (cases "StopSync_error w = None \<or> sessionState r \<noteq> SESSION_ACTIVE")
    case True
    then show ?thesis by (simp add: bailOutOnError_Normal released_def)
  next
    case False
    then obtain e where "StopSync_error w = Some e" "sessionState r = SESSION_ACTIVE" by auto
    then show ?thesis by (simp add: bailOutOnError_Throw released_def)
  qed
qed

lemma handleFatalPipelineError_pipelineState:
  "pipelineState (snd (handleFatalPipelineError w m r)) = (if pipeline r = None then ERROR else STOPPED)"
  by (simp add: handleFatalPipelineError_def bailOutOnError_pipelineState)

lemma handleFatalPipelineError_pipeline:
  "pipeline (snd (handleFatalPipelineError w m r)) = None"
  by (simp add: handleFatalPipelineError_def bailOutOnError_pipelineState)

lemma startPipeline_parse_failed:
  assumes "parse_launch_full w = Inl e"
  shows "startPipeline w n r = handleFatalPipelineError w (''Failed to create pipeline: '' @ e) r"
proof (cases "handleFatalPipelineError w (''Failed to create pipeline: '' @ e) r")
  case (Pair c r1)
  with handleFatalPipelineError_pipeline [of w "''Failed to create pipeline: '' @ e" r]
  have "pipeline r1 = None" by simp
  with Pair assms show ?thesis
    by (cases c) (simp_all add: startPipeline_def ensurePipeline_def)
qed

section \<open>The order of the fatal-error path\<close>

text \<open>
  C1, as amended. Whenever the fatal-error path of a Recorder is triggered, by the
  vanished sender, by the unexpected close of the session or by a fatal pipeline
  signal, what it does to the outside is in the order of the code: tear down the
  pipeline (if there is one), stop watching the sender, ask the remote session to stop
  (only if the session is active), notify the registry through the error callback (if
  it is still set), reject the pending start outcome, reject the pending stop outcome.
  This holds in every world, for every origin and every Recorder. When the remote stop
  call does not throw (or is not made), the path runs to its end and the effects are
  exactly the steps that apply, \<open>fatal_path_steps\<close>; for a closed session the session
  is already marked stopped, so no stop is requested.
\<close>

theorem fatal_error_path_order:
  "in_code_order (since r (snd (fail w f r)))
   \<and> (StopSync_error w = None \<or> sessionState r \<noteq> SESSION_ACTIVE \<longrightarrow>
        fst (fail w SenderGone r) = Normal
      \<and> since r (snd (fail w SenderGone r)) = fatal_path_steps w ''Sender has vanished'' r
      \<and> fst (fail w (PipelineFatal m) r) = Normal
      \<and> since r (snd (fail w (PipelineFatal m) r))
          = fatal_path_steps w (''Fatal pipeline error: '' @ m) r)
   \<and> (sessionState r \<noteq> SESSION_STOPPED \<longrightarrow>
        fst (fail w SessionGone r) = Normal
      \<and> since r (snd (fail w SessionGone r))
          = fatal_path_steps w ''Session closed unexpectedly'' (r\<lparr>sessionState := SESSION_STOPPED\<rparr>))"
proof (intro conjI impI)
  show "in_code_order (since r (snd (fail w f r)))"
  proof (cases f)
    case SenderGone
    then show ?thesis
      by (simp add: senderVanished_def bailOutOnError_in_code_order)
  next
    case SessionGone
    have "since r (snd (bailOutOnError w msg (r\<lparr>sessionState := SESSION_STOPPED\<rparr>)))
        = since (r\<lparr>sessionState := SESSION_STOPPED\<rparr>)
            (snd (bailOutOnError w msg (r\<lparr>sessionState := SESSION_STOPPED\<rparr>)))" for msg
      by (simp add: since_def)
    with SessionGone show ?thesis
      by (cases "sessionState r = SESSION_STOPPED")
         (simp_all add: onSessionClosed_def bailOutOnError_in_code_order,
          simp add: in_code_order_def)
  next
    case (PipelineFatal m')
    have "since r (snd (bailOutOnError w msg (r\<lparr>pipelineState := ERROR\<rparr>)))
        = since (r\<lparr>pipelineState := ERROR\<rparr>)
            (snd (bailOutOnError w msg (r\<lparr>pipelineState := ERROR\<rparr>)))" for msg
      by (simp add: since_def)
    with PipelineFatal show ?thesis
      by (simp add: handleFatalPipelineError_def bailOutOnError_in_code_order)
  qed
next
  assume h: "StopSync_error w = None \<or> sessionState r \<noteq> SESSION_ACTIVE"
  show "fst (fail w SenderGone r) = Normal"
    using h by (simp add: senderVanished_def bailOutOnError_Normal)
  show "since r (snd (fail w SenderGone r)) = fatal_path_steps w ''Sender has vanished'' r"
    using h by (simp add: senderVanished_def bailOutOnError_Normal)
  have h': "StopSync_error w = None
      \<or> sessionState (r\<lparr>pipelineState := ERROR\<rparr>) \<noteq> SESSION_ACTIVE"
    using h by simp
  show "fst (fail w (PipelineFatal m) r) = Normal"
    by (simp add: handleFatalPipelineError_def bailOutOnError_Normal [OF h'])
  show "since r (snd (fail w (PipelineFatal m) r))
          = fatal_path_steps w (''Fatal pipeline error: '' @ m) r"
    by (simp add: handleFatalPipelineError_def bailOutOnError_Normal [OF h'] since_def
        fatal_path_steps_def release_steps_def teardown_steps_def)
next
  assume h: "sessionState r \<noteq> SESSION_STOPPED"
  have h': "StopSync_error w = None
      \<or> sessionState (r\<lparr>sessionState := SESSION_STOPPED\<rparr>) \<noteq> SESSION_ACTIVE"
    by simp
  show "fst (fail w SessionGone r) = Normal"
    using h by (simp add: onSessionClosed_def bailOutOnError_Normal [OF h'])
  show "since r (snd (fail w SessionGone r))
          = fatal_path_steps w ''Session closed unexpectedly'' (r\<lparr>sessionState := SESSION_STOPPED\<rparr>)"
    using h by (simp add: onSessionClosed_def bailOutOnError_Normal [OF h'] since_def)
qed

lemma recorder_start_failed_eq:
  "recorder_start_failed =
     recorder_new\<lparr>startRequest := True,
       effects := [WatchName '':1.42'', SessionRecordAreaSync]\<rparr>"
  by (simp add: recorder_start_failed_def world_area_fails_def world_ok_def startRecording_def
      emit_def recorder_new_def)

text \<open>
  The order as claimed, with the registry notified after the outcomes are rejected,
  is not the order of the code: when the sender of a starting Recorder vanishes, the
  error callback runs before the start outcome is rejected.
\<close>

theorem fatal_error_path_order_counterexample:
  "since recorder_starting (snd (fail world_ok SenderGone recorder_starting))
     = [UnwatchName 7, SessionStopSync, Log ''Recorder error: Sender has vanished'',
        OnErrorCallback, StartReject ''Sender has vanished'']
   \<and> \<not> in_specified_order (since recorder_starting (snd (fail world_ok SenderGone recorder_starting)))"
  by (simp add: senderVanished_def bailOutOnError_Normal world_ok_def recorder_starting_eq
      fatal_path_steps_def release_steps_def teardown_steps_def in_specified_order_def
      since_def released_def List.map_filter_simps)

text \<open>An instance: the flushing example Recorder, hit by a pipeline error and by a close.\<close>

theorem fatal_error_path_order_witness:
  "StopSync_error world_ok = None
   \<and> since recorder_flushing (snd (fail world_ok (PipelineFatal ''boom'') recorder_flushing))
     = [PipelineSetStateNull, UnwatchName 7, SessionStopSync,
        Log ''Recorder error: Fatal pipeline error: boom'',
        OnErrorCallback, StopReject ''Fatal pipeline error: boom'']
   \<and> sessionState recorder_flushing \<noteq> SESSION_STOPPED
   \<and> since recorder_flushing (snd (fail world_ok SessionGone recorder_flushing))
     = [PipelineSetStateNull, UnwatchName 7,
        Log ''Recorder error: Session closed unexpectedly'',
        OnErrorCallback, StopReject ''Session closed unexpectedly'']"
proof -
  have h: "StopSync_error world_ok = None"
    by (simp add: world_ok_def)
  have g: "sessionState recorder_flushing \<noteq> SESSION_STOPPED"
    by (simp add: recorder_flushing_eq)
  have s: "set_state_null world_ok = GST_SUCCESS"
    by (simp add: world_ok_def)
  show ?thesis
    using h g fatal_error_path_order [of recorder_flushing world_ok SenderGone "''boom''"]
    by (simp add: fatal_path_steps_def release_steps_def teardown_steps_def s
        recorder_flushing_eq)
qed

section \<open>Triggering the fatal-error path again\<close>

lemma bailOutOnError_done:
  assumes "bailOutOnError w msg r = (Normal, r1)"
  shows "pipeline r1 = None" "nameWatchId r1 = 0" "sessionState r1 \<noteq> SESSION_ACTIVE"
    "\<not> onErrorCallback r1" "\<not> startRequest r1" "\<not> stopRequest r1"
    "sessionState r \<noteq> SESSION_INIT \<Longrightarrow> sessionState r1 = SESSION_STOPPED"
proof -
  have ok: "StopSync_error w = None \<or> sessionState r \<noteq> SESSION_ACTIVE"
  proof (rule ccontr)
    assume "\<not> ?thesis"
    then obtain e where "StopSync_error w = Some e" "sessionState r = SESSION_ACTIVE"
      by auto
    then have "fst (bailOutOnError w msg r) = Throw e"
      by (simp add: bailOutOnError_Throw)
    with assms show False by simp
  qed
  have r1: "r1 = (released r)\<lparr>onErrorCallback := False, startRequest := False,
                stopRequest := False, effects := effects r @ fatal_path_steps w msg r\<rparr>"
    using assms bailOutOnError_Normal [OF ok, of msg] by simp
  show "pipeline r1 = None" "nameWatchId r1 = 0" "sessionState r1 \<noteq> SESSION_ACTIVE"
    "\<not> onErrorCallback r1" "\<not> startRequest r1" "\<not> stopRequest r1"
    by (simp_all add: r1 released_def)
  show "sessionState r \<noteq> SESSION_INIT \<Longrightarrow> sessionState r1 = SESSION_STOPPED"
    by (cases "sessionState r") (simp_all add: r1 released_def)
qed

lemma bailOutOnError_again:
  assumes "pipeline r1 = None" "nameWatchId r1 = 0" "sessionState r1 \<noteq> SESSION_ACTIVE"
    "\<not> onErrorCallback r1" "\<not> startRequest r1" "\<not> stopRequest r1"
  shows "bailOutOnError w msg r1 = (Normal, emit (Log (''Recorder error: '' @ msg)) r1)"
  using assms
  by (simp add: bailOutOnError_def teardownPipeline_def unwatchSender_def stopSession_def emit_def)

text \<open>A retired Recorder stays retired and quiet under every callback and every trigger.\<close>

lemma bailOutOnError_retired:
  assumes "retired r"
  shows "bailOutOnError w msg r =
     (Normal, r\<lparr>pipelineState := (if pipeline r = None then pipelineState r else STOPPED),
                pipeline := None,
                effects := effects r @ teardown_steps w r @ [Log (''Recorder error: '' @ msg)]\<rparr>)"
proof -
  have ok: "StopSync_error w = None \<or> sessionState r \<noteq> SESSION_ACTIVE"
    using assms by (simp add: retired_def)
  show ?thesis
    using assms
    by (simp add: bailOutOnError_Normal [OF ok] released_def fatal_path_steps_def
        release_steps_def retired_def)
qed

lemma repeated_teardown [simp]: "filter repeated_step (teardown_steps w r) = []"
  by (cases "pipeline r") (simp_all add: teardown_steps_def)

lemma teardown_none [simp]: "pipeline r = None \<Longrightarrow> teardown_steps w r = []"
  by (simp add: teardown_steps_def)

lemma quiet_bailOut:
  assumes "retired r"
  shows "quiet r (snd (bailOutOnError w msg r))"
  using assms
  by (simp add: bailOutOnError_retired quiet_def retired_def since_def)

lemma quiet_bailOut':
  assumes "retired r0" "retired r" "effects r = effects r0 @ es" "filter repeated_step es = []"
    "sessionState r0 = SESSION_STOPPED \<longrightarrow> sessionState r = SESSION_STOPPED"
  shows "quiet r0 (snd (bailOutOnError w msg r))"
  using assms
  by (simp add: bailOutOnError_retired quiet_def retired_def since_def)

lemma quiet_handleFatal:
  assumes "retired r0" "retired r" "effects r = effects r0 @ es" "filter repeated_step es = []"
    "sessionState r0 = SESSION_STOPPED \<longrightarrow> sessionState r = SESSION_STOPPED"
  shows "quiet r0 (snd (handleFatalPipelineError w m r))"
proof -
  have "retired (r\<lparr>pipelineState := ERROR\<rparr>)"
    using assms(2) by (simp add: retired_def)
  then show ?thesis
    using assms quiet_bailOut' [of r0 "r\<lparr>pipelineState := ERROR\<rparr>" es]
    by (simp add: handleFatalPipelineError_def)
qed

lemma quiet_refl: "retired r \<Longrightarrow> quiet r r"
  by (simp add: quiet_def)

lemma quiet_deliver:
  assumes "retired r"
  shows "quiet r (snd (deliver w e r))"
proof (cases e)
  case SenderVanished
  with assms show ?thesis by (simp add: senderVanished_def quiet_bailOut)
next
  case SessionClosed
  show ?thesis
  proof (cases "sessionState r = SESSION_STOPPED")
    case True
    with SessionClosed assms show ?thesis by (simp add: onSessionClosed_def quiet_refl)
  next
    case False
    have "retired (r\<lparr>sessionState := SESSION_STOPPED\<rparr>)"
      using assms by (simp add: retired_def)
    with False SessionClosed assms
      quiet_bailOut' [of r "r\<lparr>sessionState := SESSION_STOPPED\<rparr>" "[]"]
    show ?thesis by (simp add: onSessionClosed_def)
  qed
next
  case (PipeWireStreamAdded n)
  show ?thesis
  proof (cases "parse_launch_full w")
    case (Inl err)
    with PipeWireStreamAdded assms quiet_handleFatal [of r r "[]"] show ?thesis
      by (simp add: startPipeline_parse_failed)
  next
    case (Inr p)
    let ?r2 = "emit PipelineSetStatePlaying (emit BusAddWatch (r\<lparr>pipeline := Some p\<rparr>))"
    have r2: "retired ?r2" "effects ?r2 = effects r @ [BusAddWatch, PipelineSetStatePlaying]"
      "sessionState ?r2 = sessionState r"
      using assms by (simp_all add: retired_def emit_def)
    show ?thesis
    proof (cases "set_state_playing w = GST_SUCCESS \<or> set_state_playing w = GST_ASYNC")
      case True
      with Inr PipeWireStreamAdded r2 assms show ?thesis
        by (simp add: startPipeline_def ensurePipeline_def quiet_def since_def Let_def)
    next
      case False
      with Inr PipeWireStreamAdded
        quiet_handleFatal [of r ?r2 "[BusAddWatch, PipelineSetStatePlaying]"] r2 assms
      show ?thesis
        by (simp add: startPipeline_def ensurePipeline_def Let_def)
    qed
  qed
next
  case (BusMessage m)
  show ?thesis
  proof (cases m)
    case (MSG_STATE_CHANGED src newState)
    with BusMessage assms show ?thesis
      by (simp add: quiet_def retired_def since_def)
  next
    case MSG_EOS
    let ?ra = "addRecentItem r"
    have ra: "retired ?ra" "effects ?ra = effects r @ [AddRecentItem (filePath r)]"
      "sessionState ?ra = sessionState r"
      using assms by (simp_all add: retired_def addRecentItem_def emit_def)
    show ?thesis
    proof (cases "pipelineState r")
      case INIT
      with MSG_EOS BusMessage assms quiet_handleFatal [of r r "[]"] show ?thesis by simp
    next
      case PLAYING
      with MSG_EOS BusMessage assms ra
        quiet_handleFatal [of r ?ra "[AddRecentItem (filePath r)]"] show ?thesis by simp
    next
      case FLUSHING
      with MSG_EOS BusMessage assms show ?thesis
        by (simp add: release_eq released_def release_steps_def addRecentItem_def emit_def
            quiet_def retired_def since_def)
    next
      case STOPPED
      with MSG_EOS BusMessage assms show ?thesis by (simp add: quiet_refl)
    next
      case ERROR
      with MSG_EOS BusMessage assms show ?thesis by (simp add: quiet_refl)
    qed
  next
    case (MSG_ERROR description)
    with BusMessage assms quiet_handleFatal [of r r "[]"] show ?thesis
      by (cases "pipelineState r") (simp_all add: quiet_refl)
  next
    case MSG_OTHER
    with BusMessage assms show ?thesis by (simp add: quiet_refl)
  qed
qed

lemma quiet_trans:
  assumes "quiet r r'" "quiet r' r''"
  shows "quiet r r''"
proof -
  from assms(1) obtain es where e1: "effects r' = effects r @ es"
    by (metis quiet_def append_take_drop_id)
  from assms(2) obtain es' where e2: "effects r'' = effects r' @ es'"
    by (metis quiet_def append_take_drop_id)
  from assms e1 e2 show ?thesis
    by (simp add: quiet_def since_def)
qed

lemma quiet_deliver_all:
  "retired r \<Longrightarrow> quiet r (deliver_all evs r)"
proof (induction evs arbitrary: r)
  case Nil
  then show ?case by (simp add: deliver_all_def quiet_refl)
next
  case (Cons x xs)
  let ?r = "snd (deliver (fst x) (snd x) r)"
  have a: "quiet r ?r" using Cons.prems by (rule quiet_deliver)
  then have "retired ?r" by (simp add: quiet_def)
  then have "quiet ?r (deliver_all xs ?r)" by (rule Cons.IH)
  with a have "quiet r (deliver_all xs ?r)" by (rule quiet_trans)
  then show ?case by (simp add: deliver_all_def)
qed

lemma quiet_since:
  assumes "quiet r r'" "quiet r' r''"
  shows "since r r'' = since r r' @ since r' r''"
proof -
  from assms(1) obtain es where e1: "effects r' = effects r @ es"
    by (metis quiet_def append_take_drop_id)
  from assms(2) obtain es' where e2: "effects r'' = effects r' @ es'"
    by (metis quiet_def append_take_drop_id)
  from e1 e2 show ?thesis by (simp add: since_def)
qed

lemma bailOut_no_pipeline:
  assumes "retired r" "pipeline r = None"
  shows "pipeline (snd (bailOutOnError w msg r)) = None"
    "effects (snd (bailOutOnError w msg r)) = effects r @ [Log (''Recorder error: '' @ msg)]"
  using assms by (simp_all add: bailOutOnError_retired)

lemma still_deliver:
  assumes "retired r" "pipeline r = None" "\<not> stream_added (w, e)"
  shows "pipeline (snd (deliver w e r)) = None
       \<and> PipelineSetStateNull \<notin> set (since r (snd (deliver w e r)))"
proof (cases e)
  case SenderVanished
  with assms show ?thesis
    by (simp add: senderVanished_def bailOut_no_pipeline since_def)
next
  case SessionClosed
  have "retired (r\<lparr>sessionState := SESSION_STOPPED\<rparr>)"
    using assms by (simp add: retired_def)
  with SessionClosed assms show ?thesis
    by (simp add: onSessionClosed_def bailOut_no_pipeline since_def)
next
  case (PipeWireStreamAdded n)
  with assms show ?thesis by simp
next
  case (BusMessage m)
  have re: "retired (r\<lparr>pipelineState := ERROR\<rparr>)"
    "retired ((addRecentItem r)\<lparr>pipelineState := ERROR\<rparr>)"
    using assms by (simp_all add: retired_def addRecentItem_def emit_def)
  show ?thesis
  proof (cases m)
    case (MSG_STATE_CHANGED src newState)
    with BusMessage assms show ?thesis by simp
  next
    case MSG_EOS
    with BusMessage assms re show ?thesis
      by (cases "pipelineState r")
         (simp_all add: handleFatalPipelineError_def bailOut_no_pipeline since_def
            addRecentItem_def emit_def release_eq released_def release_steps_def retired_def)
  next
    case (MSG_ERROR description)
    with BusMessage assms re show ?thesis
      by (cases "pipelineState r")
         (simp_all add: handleFatalPipelineError_def bailOut_no_pipeline since_def)
  next
    case MSG_OTHER
    with BusMessage assms show ?thesis by simp
  qed
qed

lemma still_deliver_all:
  assumes "retired r" "pipeline r = None" "\<not> list_ex stream_added evs"
  shows "pipeline (deliver_all evs r) = None
       \<and> PipelineSetStateNull \<notin> set (since r (deliver_all evs r))"
  using assms
proof (induction evs arbitrary: r)
  case Nil
  then show ?case by (simp add: deliver_all_def)
next
  case (Cons x xs)
  let ?r = "snd (deliver (fst x) (snd x) r)"
  have nx: "\<not> stream_added (fst x, snd x)" "\<not> list_ex stream_added xs"
    using Cons.prems(3) by simp_all
  have q: "quiet r ?r" using Cons.prems(1) by (rule quiet_deliver)
  then have rr: "retired ?r" by (simp add: quiet_def)
  have s: "pipeline ?r = None \<and> PipelineSetStateNull \<notin> set (since r ?r)"
    using Cons.prems(1,2) nx(1) by (rule still_deliver)
  then have ih: "pipeline (deliver_all xs ?r) = None
       \<and> PipelineSetStateNull \<notin> set (since ?r (deliver_all xs ?r))"
    using Cons.IH [OF rr _ nx(2)] by simp
  have q2: "quiet ?r (deliver_all xs ?r)" using rr by (rule quiet_deliver_all)
  have d: "deliver_all (x # xs) r = deliver_all xs ?r"
    by (simp add: deliver_all_def)
  show ?case
    unfolding d using s ih quiet_since [OF q q2] by simp
qed

lemma fail_retired:
  assumes "retired r"
  shows "fail w f r =
     (case f of
        SenderGone \<Rightarrow> (Normal, r\<lparr>pipelineState := (if pipeline r = None then pipelineState r else STOPPED),
             pipeline := None,
             effects := effects r @ teardown_steps w r @ [Log ''Recorder error: Sender has vanished'']\<rparr>)
      | SessionGone \<Rightarrow>
          (if sessionState r = SESSION_STOPPED then (Normal, r)
           else (Normal, r\<lparr>pipelineState := (if pipeline r = None then pipelineState r else STOPPED),
             pipeline := None, sessionState := SESSION_STOPPED,
             effects := effects r @ teardown_steps w r
                        @ [Log ''Recorder error: Session closed unexpectedly'']\<rparr>))
      | PipelineFatal m \<Rightarrow>
          (Normal, r\<lparr>pipelineState := (if pipeline r = None then ERROR else STOPPED),
             pipeline := None,
             effects := effects r @ teardown_steps w r
                        @ [Log (''Recorder error: Fatal pipeline error: '' @ m)]\<rparr>))"
proof (cases f)
  case SenderGone
  with assms show ?thesis by (simp add: senderVanished_def bailOutOnError_retired)
next
  case SessionGone
  have "retired (r\<lparr>sessionState := SESSION_STOPPED\<rparr>)"
    using assms by (simp add: retired_def)
  with SessionGone show ?thesis
    by (simp add: onSessionClosed_def bailOutOnError_retired teardown_steps_def)
next
  case (PipelineFatal m)
  have "retired (r\<lparr>pipelineState := ERROR\<rparr>)"
    using assms by (simp add: retired_def)
  with PipelineFatal show ?thesis
    by (simp add: handleFatalPipelineError_def bailOutOnError_retired teardown_steps_def)
qed

lemma quiet_fail:
  assumes "retired r"
  shows "quiet r (snd (fail w f r))"
proof (cases f)
  case SenderGone
  with quiet_deliver [OF assms, of w SenderVanished] show ?thesis by simp
next
  case SessionGone
  with quiet_deliver [OF assms, of w SessionClosed] show ?thesis by simp
next
  case (PipelineFatal m)
  with quiet_handleFatal [of r r "[]" w m] assms show ?thesis by simp
qed

lemma retired_after_bailOut:
  assumes "bailOutOnError w msg r = (Normal, r1)"
  shows "retired r1" "pipeline r1 = None"
  using bailOutOnError_done [OF assms] by (simp_all add: retired_def)

text \<open>
  C2, as amended. Once the fatal-error path has run to its end for a Recorder, a
  trigger that comes next releases nothing, notifies nobody and rejects nothing: a
  vanished sender only writes a log line, a fatal pipeline signal writes a log line
  and sets the pipeline state to ERROR, and a close of the session does nothing at all
  when the session is marked stopped and otherwise marks it stopped and writes a log
  line. The same holds at any later time, whatever callbacks of the Recorder (sender
  vanished, session closed, stream added, bus messages) have run in between, in any
  number and order and in any worlds, and whichever trigger then fires: the sender
  watch is not stopped again, the remote session is not asked to stop again, the
  registry is not notified again and no outcome is rejected or resolved. The stream
  handler stays connected, so a late stream may build a new pipeline, which a later
  trigger tears down; when no stream has been added since, there is no pipeline and
  none is torn down. When the session was active or stopped as the path first ran, a
  close of the session at any later time changes nothing at all.
\<close>

theorem fatal_error_path_idempotent:
  assumes "bailOutOnError w msg r = (Normal, r1)"
  shows "fail w' SenderGone r1
           = (Normal, emit (Log ''Recorder error: Sender has vanished'') r1)
       \<and> fail w' (PipelineFatal m) r1
           = (Normal, emit (Log (''Recorder error: Fatal pipeline error: '' @ m))
                        (r1\<lparr>pipelineState := ERROR\<rparr>))
       \<and> fail w' SessionGone r1
           = (if sessionState r1 = SESSION_STOPPED then (Normal, r1)
              else (Normal, emit (Log ''Recorder error: Session closed unexpectedly'')
                              (r1\<lparr>sessionState := SESSION_STOPPED\<rparr>)))
       \<and> (sessionState r \<noteq> SESSION_INIT \<longrightarrow> fail w' SessionGone r1 = (Normal, r1))
       \<and> filter repeated_step (since r1 (snd (fail w' f (deliver_all evs r1)))) = []
       \<and> (\<not> list_ex stream_added evs \<longrightarrow>
            pipeline (snd (fail w' f (deliver_all evs r1))) = None
          \<and> PipelineSetStateNull \<notin> set (since r1 (snd (fail w' f (deliver_all evs r1)))))
       \<and> (sessionState r \<noteq> SESSION_INIT \<longrightarrow>
            fail w' SessionGone (deliver_all evs r1) = (Normal, deliver_all evs r1))"
proof -
  note d = bailOutOnError_done [OF assms]
  note ret = retired_after_bailOut [OF assms]
  let ?r2 = "deliver_all evs r1"
  let ?r3 = "snd (fail w' f ?r2)"
  have a: "fail w' SenderGone r1
           = (Normal, emit (Log ''Recorder error: Sender has vanished'') r1)"
    using d by (simp add: senderVanished_def bailOutOnError_again)
  have b: "fail w' (PipelineFatal m) r1
           = (Normal, emit (Log (''Recorder error: Fatal pipeline error: '' @ m))
                        (r1\<lparr>pipelineState := ERROR\<rparr>))"
    using d by (simp add: handleFatalPipelineError_def bailOutOnError_again)
  have c: "fail w' SessionGone r1
           = (if sessionState r1 = SESSION_STOPPED then (Normal, r1)
              else (Normal, emit (Log ''Recorder error: Session closed unexpectedly'')
                              (r1\<lparr>sessionState := SESSION_STOPPED\<rparr>)))"
    using d by (simp add: onSessionClosed_def bailOutOnError_again)
  have e: "sessionState r \<noteq> SESSION_INIT \<longrightarrow> fail w' SessionGone r1 = (Normal, r1)"
    using d(7) by (simp add: onSessionClosed_def)
  have q12: "quiet r1 ?r2"
    using ret(1) by (rule quiet_deliver_all)
  then have r2: "retired ?r2"
    by (simp add: quiet_def)
  then have q23: "quiet ?r2 ?r3"
    by (rule quiet_fail)
  from q12 q23 have "quiet r1 ?r3"
    by (rule quiet_trans)
  then have f: "filter repeated_step (since r1 ?r3) = []"
    by (simp add: quiet_def)
  have g: "pipeline ?r3 = None \<and> PipelineSetStateNull \<notin> set (since r1 ?r3)"
    if ns: "\<not> list_ex stream_added evs"
  proof -
    from still_deliver_all [OF ret ns]
    have p2: "pipeline ?r2 = None" "PipelineSetStateNull \<notin> set (since r1 ?r2)"
      by simp_all
    have "pipeline ?r3 = None \<and> PipelineSetStateNull \<notin> set (since ?r2 ?r3)"
      unfolding fail_retired [OF r2] using p2(1)
      by (cases f) (simp_all add: since_def)
    with p2(2) quiet_since [OF q12 q23] show ?thesis
      by simp
  qed
  have h: "fail w' SessionGone ?r2 = (Normal, ?r2)" if "sessionState r \<noteq> SESSION_INIT"
  proof -
    from that d(7) have "sessionState r1 = SESSION_STOPPED" by simp
    with q12 have "sessionState ?r2 = SESSION_STOPPED" by (simp add: quiet_def)
    then show ?thesis by (simp add: onSessionClosed_def)
  qed
  from a b c e f g h show ?thesis by blast
qed

text \<open>
  Instances: on the playing example Recorder after a pipeline error, a close and a
  vanished sender; then a late stream, whose pipeline the next trigger tears down and
  whose failure to start is a trigger itself.
\<close>

lemma recorder_failed_eq:
  "recorder_failed =
     \<lparr>areaX = 0, areaY = 0, areaWidth = 1920, areaHeight = 1080,
      filePath = ''/home/u/Videos/cast.webm'',
      pipelineString = DEFAULT_PIPELINE, framerate = 30, drawCursor = True,
      pipelineState = STOPPED, pipeline = None, nameWatchId = 0,
      sessionState = SESSION_STOPPED, onErrorCallback = False,
      startRequest = False, stopRequest = False,
      effects = [WatchName '':1.42'', SessionRecordAreaSync, StreamConnectSignal,
                 SessionStartSync, BusAddWatch, PipelineSetStatePlaying, StartResolve,
                 PipelineSetStateNull, UnwatchName 7, SessionStopSync,
                 Log ''Recorder error: Fatal pipeline error: boom'', OnErrorCallback]\<rparr>"
  by (simp add: recorder_failed_def handleFatalPipelineError_def bailOutOnError_def
      teardownPipeline_def unwatchSender_def stopSession_def emit_def world_ok_def
      recorder_playing_eq)

lemma late_stream_example:
  "deliver_all [(world_ok, PipeWireStreamAdded 5)] recorder_failed
     = recorder_failed\<lparr>pipeline := Some 1,
         effects := effects recorder_failed @ [BusAddWatch, PipelineSetStatePlaying]\<rparr>"
  "snd (fail world_ok SenderGone
          (deliver_all [(world_ok, PipeWireStreamAdded 5)] recorder_failed))
     = recorder_failed\<lparr>
         effects := effects recorder_failed
           @ [BusAddWatch, PipelineSetStatePlaying, PipelineSetStateNull,
              Log ''Recorder error: Sender has vanished'']\<rparr>"
  "deliver_all [(world_play_fails, PipeWireStreamAdded 5)] recorder_failed
     = recorder_failed\<lparr>
         effects := effects recorder_failed
           @ [BusAddWatch, PipelineSetStatePlaying, PipelineSetStateNull,
              Log ''Recorder error: Fatal pipeline error: Failed to start pipeline'']\<rparr>"
  by (simp_all add: deliver_all_def startPipeline_def ensurePipeline_def world_ok_def
      world_play_fails_def emit_def recorder_failed_eq senderVanished_def
      handleFatalPipelineError_def bailOutOnError_def
      teardownPipeline_def unwatchSender_def stopSession_def)

theorem fatal_error_path_idempotent_witness:
  "bailOutOnError world_ok ''Fatal pipeline error: boom'' (recorder_playing\<lparr>pipelineState := ERROR\<rparr>)
     = (Normal, recorder_failed)
   \<and> sessionState (recorder_playing\<lparr>pipelineState := ERROR\<rparr>) \<noteq> SESSION_INIT
   \<and> onSessionClosed world_ok recorder_failed = (Normal, recorder_failed)
   \<and> effects (snd (senderVanished world_ok recorder_failed))
       = effects recorder_failed @ [Log ''Recorder error: Sender has vanished'']
   \<and> \<not> list_ex stream_added [(world_ok, BusMessage MSG_EOS), (world_ok, SenderVanished)]
   \<and> pipeline (snd (fail world_ok (PipelineFatal ''late'')
        (deliver_all [(world_ok, BusMessage MSG_EOS), (world_ok, SenderVanished)]
           recorder_failed))) = None
   \<and> since recorder_failed (snd (fail world_ok SenderGone
        (deliver_all [(world_ok, PipeWireStreamAdded 5)] recorder_failed)))
       = [BusAddWatch, PipelineSetStatePlaying, PipelineSetStateNull,
          Log ''Recorder error: Sender has vanished'']
   \<and> filter repeated_step (since recorder_failed (snd (fail world_ok SenderGone
        (deliver_all [(world_ok, PipeWireStreamAdded 5)] recorder_failed)))) = []
   \<and> fail world_ok SessionGone
        (deliver_all [(world_ok, PipeWireStreamAdded 5)] recorder_failed)
       = (Normal, deliver_all [(world_ok, PipeWireStreamAdded 5)] recorder_failed)"
proof -
  have ok: "StopSync_error world_ok = None
      \<or> sessionState (recorder_playing\<lparr>pipelineState := ERROR\<rparr>) \<noteq> SESSION_ACTIVE"
    by (simp add: world_ok_def)
  have h: "bailOutOnError world_ok ''Fatal pipeline error: boom''
             (recorder_playing\<lparr>pipelineState := ERROR\<rparr>) = (Normal, recorder_failed)"
    by (simp add: recorder_failed_def handleFatalPipelineError_def bailOutOnError_Normal [OF ok])
  have g: "sessionState (recorder_playing\<lparr>pipelineState := ERROR\<rparr>) \<noteq> SESSION_INIT"
    by (simp add: recorder_playing_eq)
  have ns: "\<not> list_ex stream_added [(world_ok, BusMessage MSG_EOS), (world_ok, SenderVanished)]"
    by simp
  note t0 = fatal_error_path_idempotent [OF h, of world_ok "''x''" SenderGone "[]"]
  from t0 have a: "fail world_ok SenderGone recorder_failed
      = (Normal, emit (Log ''Recorder error: Sender has vanished'') recorder_failed)"
    by blast
  from t0 g have b: "fail world_ok SessionGone recorder_failed = (Normal, recorder_failed)"
    by blast
  from a have a': "effects (snd (senderVanished world_ok recorder_failed))
       = effects recorder_failed @ [Log ''Recorder error: Sender has vanished'']"
    by (simp add: emit_def)
  from b have b': "onSessionClosed world_ok recorder_failed = (Normal, recorder_failed)"
    by simp
  note t1 = fatal_error_path_idempotent [OF h, of world_ok "''x''" "PipelineFatal ''late''"
      "[(world_ok, BusMessage MSG_EOS), (world_ok, SenderVanished)]"]
  from t1 ns have c: "pipeline (snd (fail world_ok (PipelineFatal ''late'')
        (deliver_all [(world_ok, BusMessage MSG_EOS), (world_ok, SenderVanished)]
           recorder_failed))) = None"
    by blast
  note t2 = fatal_error_path_idempotent [OF h, of world_ok "''x''" SenderGone
      "[(world_ok, PipeWireStreamAdded 5)]"]
  have d: "since recorder_failed (snd (fail world_ok SenderGone
        (deliver_all [(world_ok, PipeWireStreamAdded 5)] recorder_failed)))
       = [BusAddWatch, PipelineSetStatePlaying, PipelineSetStateNull,
          Log ''Recorder error: Sender has vanished'']"
    unfolding late_stream_example(2) by (simp add: since_def)
  from t2 have e: "filter repeated_step (since recorder_failed (snd (fail world_ok SenderGone
        (deliver_all [(world_ok, PipeWireStreamAdded 5)] recorder_failed)))) = []"
    by blast
  from t2 g have f: "fail world_ok SessionGone
        (deliver_all [(world_ok, PipeWireStreamAdded 5)] recorder_failed)
       = (Normal, deliver_all [(world_ok, PipeWireStreamAdded 5)] recorder_failed)"
    by blast
  from h g b' a' ns c d e f show ?thesis by blast
qed

text \<open>
  A later trigger is not always without effect on the state. The Recorder whose
  \<^verbatim>\<open>startRecording\<close> failed in \<^verbatim>\<open>RecordAreaSync\<close> still has its session in INIT;
  its sender vanishes and the path runs to its end; a close of the session then moves
  the session state from INIT to STOPPED. The same happens when the first trigger is
  a fatal pipeline error.
\<close>

theorem fatal_error_path_idempotent_counterexample:
  "senderVanished world_ok recorder_start_failed
     = (Normal, recorder_start_failed\<lparr>nameWatchId := 0, onErrorCallback := False,
          startRequest := False,
          effects := [WatchName '':1.42'', SessionRecordAreaSync, UnwatchName 7,
                      Log ''Recorder error: Sender has vanished'', OnErrorCallback,
                      StartReject ''Sender has vanished'']\<rparr>)
   \<and> sessionState (snd (senderVanished world_ok recorder_start_failed)) = SESSION_INIT
   \<and> sessionState (snd (onSessionClosed world_ok
        (snd (senderVanished world_ok recorder_start_failed)))) = SESSION_STOPPED
   \<and> snd (onSessionClosed world_ok (snd (senderVanished world_ok recorder_start_failed)))
       \<noteq> snd (senderVanished world_ok recorder_start_failed)
   \<and> fst (handleFatalPipelineError world_ok ''boom'' recorder_start_failed) = Normal
   \<and> sessionState (snd (handleFatalPipelineError world_ok ''boom'' recorder_start_failed))
       = SESSION_INIT
   \<and> sessionState (snd (onSessionClosed world_ok
        (snd (handleFatalPipelineError world_ok ''boom'' recorder_start_failed))))
       = SESSION_STOPPED"
proof -
  have a: "senderVanished world_ok recorder_start_failed
     = (Normal, recorder_start_failed\<lparr>nameWatchId := 0, onErrorCallback := False,
          startRequest := False,
          effects := [WatchName '':1.42'', SessionRecordAreaSync, UnwatchName 7,
                      Log ''Recorder error: Sender has vanished'', OnErrorCallback,
                      StartReject ''Sender has vanished'']\<rparr>)"
    by (simp add: senderVanished_def bailOutOnError_def teardownPipeline_def
        unwatchSender_def stopSession_def emit_def recorder_start_failed_eq recorder_new_def)
  have b: "sessionState (snd (senderVanished world_ok recorder_start_failed)) = SESSION_INIT"
    unfolding a by (simp add: recorder_start_failed_eq recorder_new_def)
  have c: "sessionState (snd (onSessionClosed world_ok
        (snd (senderVanished world_ok recorder_start_failed)))) = SESSION_STOPPED"
    unfolding a by (simp add: onSessionClosed_def bailOutOnError_def teardownPipeline_def
        unwatchSender_def stopSession_def emit_def recorder_start_failed_eq recorder_new_def)
  from b c have d: "snd (onSessionClosed world_ok (snd (senderVanished world_ok recorder_start_failed)))
       \<noteq> snd (senderVanished world_ok recorder_start_failed)"
    by (metis SessionState.distinct(3))
  have e: "handleFatalPipelineError world_ok ''boom'' recorder_start_failed
     = (Normal, recorder_start_failed\<lparr>pipelineState := ERROR, nameWatchId := 0,
          onErrorCallback := False, startRequest := False,
          effects := [WatchName '':1.42'', SessionRecordAreaSync, UnwatchName 7,
                      Log ''Recorder error: Fatal pipeline error: boom'', OnErrorCallback,
                      StartReject ''Fatal pipeline error: boom'']\<rparr>)"
    by (simp add: handleFatalPipelineError_def bailOutOnError_def teardownPipeline_def
        unwatchSender_def stopSession_def emit_def recorder_start_failed_eq recorder_new_def)
  have f: "fst (handleFatalPipelineError world_ok ''boom'' recorder_start_failed) = Normal"
    unfolding e by simp
  have g: "sessionState (snd (handleFatalPipelineError world_ok ''boom'' recorder_start_failed))
       = SESSION_INIT"
    unfolding e by (simp add: recorder_start_failed_eq recorder_new_def)
  have h: "sessionState (snd (onSessionClosed world_ok
        (snd (handleFatalPipelineError world_ok ''boom'' recorder_start_failed))))
       = SESSION_STOPPED"
    unfolding e by (simp add: onSessionClosed_def bailOutOnError_def teardownPipeline_def
        unwatchSender_def stopSession_def emit_def recorder_start_failed_eq recorder_new_def)
  from a b c d f g h show ?thesis by blast
qed

section \<open>The course of the pipeline state\<close>

lemma stage_le_3 [simp]: "stage s \<le> 3"
  by (cases s) simp_all

lemma stage_handleFatal: "stage (pipelineState (snd (handleFatalPipelineError w m r))) = 3"
  by (simp add: handleFatalPipelineError_pipelineState)

lemma stage_bailOut: "stage (pipelineState r) \<le> stage (pipelineState (snd (bailOutOnError w msg r)))"
  by (simp add: bailOutOnError_pipelineState)

lemma stage_onBusMessage:
  "stage (pipelineState r) \<le> stage (pipelineState (snd (onBusMessage w m r)))"
proof (cases m)
  case (MSG_STATE_CHANGED src newState)
  then show ?thesis by (simp add: emit_def)
next
  case MSG_EOS
  then show ?thesis
    by (cases "pipelineState r")
       (auto simp add: stage_handleFatal release_eq released_def addRecentItem_def emit_def
          split: prod.splits completion.splits)
next
  case (MSG_ERROR description)
  then show ?thesis
    by (cases "pipelineState r") (simp_all add: stage_handleFatal)
next
  case MSG_OTHER
  then show ?thesis by simp
qed

lemma stage_startPipeline:
  "stage (pipelineState r) \<le> stage (pipelineState (snd (startPipeline w n r)))"
proof (cases "parse_launch_full w")
  case (Inl e)
  then show ?thesis
    by (simp add: startPipeline_parse_failed stage_handleFatal)
next
  case (Inr p)
  then show ?thesis
    by (simp add: startPipeline_def ensurePipeline_def stage_handleFatal emit_def Let_def)
qed

lemma stage_deliver:
  "stage (pipelineState r) \<le> stage (pipelineState (snd (deliver w e r)))"
proof (cases e)
  case SenderVanished
  then show ?thesis by (simp add: senderVanished_def stage_bailOut)
next
  case SessionClosed
  then show ?thesis
    using stage_bailOut [of "r\<lparr>sessionState := SESSION_STOPPED\<rparr>" w "''Session closed unexpectedly''"]
    by (simp add: onSessionClosed_def)
next
  case (PipeWireStreamAdded n)
  then show ?thesis by (simp add: stage_startPipeline)
next
  case (BusMessage m)
  then show ?thesis by (simp add: stage_onBusMessage)
qed

lemma stage_stopRecording:
  "stage (pipelineState r) \<le> 2 \<Longrightarrow>
     stage (pipelineState r) \<le> stage (pipelineState (snd (stopRecording r)))"
  by (cases "pipeline r") (simp_all add: stopRecording_def emit_def)

lemma startRecording_pipelineState:
  "pipelineState (snd (startRecording w r)) = pipelineState r"
  by (simp add: startRecording_def emit_def Let_def split: option.splits)

lemma onBusMessage_finished:
  "pipelineState r = STOPPED \<or> pipelineState r = ERROR \<Longrightarrow> onBusMessage w m r = (Normal, r)"
  by (cases m) auto

text \<open>
  The pipeline state as the code moves it. The fatal-error handler leaves it in ERROR
  when there was no pipeline and in STOPPED when there was one. Along INIT, PLAYING,
  FLUSHING and then STOPPED or ERROR it does not move backwards under a callback of
  the Recorder, and not under \<^verbatim>\<open>stopRecording\<close> called in INIT, PLAYING or
  FLUSHING; \<^verbatim>\<open>startRecording\<close> does not touch it. In STOPPED or ERROR no bus message
  changes it, and with no pipeline left neither the vanished sender nor the closed
  session does.
\<close>

lemma pipelineState_progress:
  "pipelineState (snd (handleFatalPipelineError w m r))
     = (if pipeline r = None then ERROR else STOPPED)
   \<and> stage (pipelineState r) \<le> stage (pipelineState (snd (deliver w e r)))
   \<and> pipelineState (snd (startRecording w r)) = pipelineState r
   \<and> (stage (pipelineState r) \<le> 2 \<longrightarrow>
        stage (pipelineState r) \<le> stage (pipelineState (snd (stopRecording r))))
   \<and> (pipelineState r = STOPPED \<or> pipelineState r = ERROR \<longrightarrow>
        pipelineState (snd (deliver w (BusMessage b) r)) = pipelineState r
      \<and> (pipeline r = None \<longrightarrow>
            pipelineState (snd (deliver w SenderVanished r)) = pipelineState r
          \<and> pipelineState (snd (deliver w SessionClosed r)) = pipelineState r))"
proof (intro conjI impI)
  show "pipelineState (snd (handleFatalPipelineError w m r))
     = (if pipeline r = None then ERROR else STOPPED)"
    by (rule handleFatalPipelineError_pipelineState)
  show "stage (pipelineState r) \<le> stage (pipelineState (snd (deliver w e r)))"
    by (rule stage_deliver)
  show "pipelineState (snd (startRecording w r)) = pipelineState r"
    by (rule startRecording_pipelineState)
  show "stage (pipelineState r) \<le> stage (pipelineState (snd (stopRecording r)))"
    if "stage (pipelineState r) \<le> 2"
    using that by (rule stage_stopRecording)
  show "pipelineState (snd (deliver w (BusMessage b) r)) = pipelineState r"
    if "pipelineState r = STOPPED \<or> pipelineState r = ERROR"
    using that by (simp add: onBusMessage_finished)
  show "pipelineState (snd (deliver w SenderVanished r)) = pipelineState r"
    if "pipeline r = None"
    using that by (simp add: senderVanished_def bailOutOnError_pipelineState)
  show "pipelineState (snd (deliver w SessionClosed r)) = pipelineState r"
    if "pipeline r = None"
    using that by (simp add: onSessionClosed_def bailOutOnError_pipelineState)
qed

text \<open>
  Instances: \<^verbatim>\<open>stopRecording\<close> while playing, and a Recorder left in ERROR with no
  pipeline, which stays there.
\<close>

lemma pipelineState_progress_instances:
  "stage (pipelineState recorder_playing) \<le> 2
   \<and> pipelineState (snd (stopRecording recorder_playing)) = FLUSHING
   \<and> pipelineState (snd (handleFatalPipelineError world_ok ''boom'' recorder_starting)) = ERROR
   \<and> pipeline (snd (handleFatalPipelineError world_ok ''boom'' recorder_starting)) = None
   \<and> pipelineState (snd (deliver world_ok SenderVanished
        (snd (handleFatalPipelineError world_ok ''boom'' recorder_starting)))) = ERROR
   \<and> pipelineState (snd (deliver world_ok (BusMessage MSG_EOS)
        (snd (handleFatalPipelineError world_ok ''boom'' recorder_starting)))) = ERROR"
proof -
  let ?r = "snd (handleFatalPipelineError world_ok ''boom'' recorder_starting)"
  have a: "stage (pipelineState recorder_playing) \<le> 2"
    by (simp add: recorder_playing_eq)
  have b: "pipelineState (snd (stopRecording recorder_playing)) = FLUSHING"
    by (simp add: recorder_playing_eq stopRecording_def emit_def)
  have c: "pipelineState ?r = ERROR"
    using pipelineState_progress [of world_ok "''boom''" recorder_starting]
    by (simp add: recorder_starting_eq)
  have d: "pipeline ?r = None"
    by (rule handleFatalPipelineError_pipeline)
  note t = pipelineState_progress [of world_ok "''x''" ?r SenderVanished MSG_EOS]
  from t c d have e: "pipelineState (snd (deliver world_ok SenderVanished ?r)) = ERROR"
    by simp
  from t c have f: "pipelineState (snd (deliver world_ok (BusMessage MSG_EOS) ?r)) = ERROR"
    by simp
  from a b c d e f show ?thesis by blast
qed

text \<open>
  C6. The specification has the pipeline state move along INIT, PLAYING, FLUSHING,
  STOPPED, with ERROR reached from any state on a fatal pipeline signal and never
  left. The code does not keep ERROR: \<^verbatim>\<open>_handleFatalPipelineError\<close> sets it, and the
  \<^verbatim>\<open>_teardownPipeline\<close> it then calls sets STOPPED whenever there is a pipeline. A
  pipeline error on the playing example Recorder ends in STOPPED.
\<close>

theorem fatal_error_state_overwritten:
  "pipelineState recorder_playing = PLAYING
   \<and> pipelineState (snd (deliver world_ok (BusMessage (MSG_ERROR ''boom'')) recorder_playing))
       = STOPPED
   \<and> pipelineState (recorder_playing\<lparr>pipelineState := ERROR\<rparr>) = ERROR
   \<and> pipelineState (teardownPipeline world_ok (recorder_playing\<lparr>pipelineState := ERROR\<rparr>))
       = STOPPED"
  by (simp add: handleFatalPipelineError_pipelineState teardownPipeline_eq recorder_playing_eq)

text \<open>
  \<^verbatim>\<open>stopRecording\<close> does not look at the pipeline state either: on a Recorder that
  has stopped it sets FLUSHING again.
\<close>

lemma stopRecording_after_stop:
  "pipelineState (snd (onBusMessage world_ok MSG_EOS recorder_flushing)) = STOPPED"
  "pipelineState (snd (stopRecording (snd (onBusMessage world_ok MSG_EOS recorder_flushing))))
     = FLUSHING"
  by (simp_all add: recorder_flushing_eq world_ok_def addRecentItem_def
      teardownPipeline_def unwatchSender_def stopSession_def emit_def stopRecording_def)

section \<open>End of stream\<close>

text \<open>
  An end-of-stream message is dispatched by the pipeline state. In STOPPED and in
  ERROR it is ignored. In PLAYING (after the file has been added to the recent items)
  and in INIT it goes to the fatal-error handler. In FLUSHING, with a stop outcome
  pending, the file is added to the recent items, the pipeline, the sender watch and
  the session are released, and the stop outcome is resolved. What is said of the
  release and of the outcomes holds when the remote stop call returns.
\<close>

lemma eos_dispatch:
  "(pipelineState r = STOPPED \<or> pipelineState r = ERROR \<longrightarrow>
      onBusMessage w MSG_EOS r = (Normal, r))
   \<and> (pipelineState r = PLAYING \<longrightarrow>
        onBusMessage w MSG_EOS r
          = handleFatalPipelineError w ''Unexpected EOS message'' (addRecentItem r)
      \<and> pipelineState (snd (onBusMessage w MSG_EOS r))
          = (if pipeline r = None then ERROR else STOPPED))
   \<and> (pipelineState r = INIT \<longrightarrow>
        onBusMessage w MSG_EOS r
          = handleFatalPipelineError w ''Unexpected EOS message while in state INIT'' r
      \<and> pipelineState (snd (onBusMessage w MSG_EOS r))
          = (if pipeline r = None then ERROR else STOPPED))
   \<and> ((pipelineState r = PLAYING \<or> pipelineState r = INIT)
        \<and> (StopSync_error w = None \<or> sessionState r \<noteq> SESSION_ACTIVE) \<longrightarrow>
        fst (onBusMessage w MSG_EOS r) = Normal
      \<and> pipeline (snd (onBusMessage w MSG_EOS r)) = None
      \<and> nameWatchId (snd (onBusMessage w MSG_EOS r)) = 0
      \<and> sessionState (snd (onBusMessage w MSG_EOS r)) \<noteq> SESSION_ACTIVE
      \<and> \<not> startRequest (snd (onBusMessage w MSG_EOS r))
      \<and> \<not> stopRequest (snd (onBusMessage w MSG_EOS r))
      \<and> since r (snd (onBusMessage w MSG_EOS r))
          = (if pipelineState r = PLAYING
             then AddRecentItem (filePath r)
                  # fatal_path_steps w ''Fatal pipeline error: Unexpected EOS message'' r
             else fatal_path_steps w
                    ''Fatal pipeline error: Unexpected EOS message while in state INIT'' r))
   \<and> (pipelineState r = FLUSHING \<and> stopRequest r
        \<and> (StopSync_error w = None \<or> sessionState r \<noteq> SESSION_ACTIVE) \<longrightarrow>
        onBusMessage w MSG_EOS r
          = (Normal, (released r)\<lparr>stopRequest := False,
               effects := effects r @ AddRecentItem (filePath r) # release_steps w r
                          @ [StopResolve]\<rparr>))"
proof (intro conjI impI)
  show "onBusMessage w MSG_EOS r = (Normal, r)"
    if "pipelineState r = STOPPED \<or> pipelineState r = ERROR"
    using that by (rule onBusMessage_finished)
  show "onBusMessage w MSG_EOS r
          = handleFatalPipelineError w ''Unexpected EOS message'' (addRecentItem r)"
    if "pipelineState r = PLAYING"
    using that by simp
  show "pipelineState (snd (onBusMessage w MSG_EOS r))
          = (if pipeline r = None then ERROR else STOPPED)"
    if "pipelineState r = PLAYING"
    using that by (simp add: handleFatalPipelineError_pipelineState addRecentItem_def emit_def)
  show "onBusMessage w MSG_EOS r
          = handleFatalPipelineError w ''Unexpected EOS message while in state INIT'' r"
    if "pipelineState r = INIT"
    using that by simp
  show "pipelineState (snd (onBusMessage w MSG_EOS r))
          = (if pipeline r = None then ERROR else STOPPED)"
    if "pipelineState r = INIT"
    using that by (simp add: handleFatalPipelineError_pipelineState)
next
  assume h: "(pipelineState r = PLAYING \<or> pipelineState r = INIT)
        \<and> (StopSync_error w = None \<or> sessionState r \<noteq> SESSION_ACTIVE)"
  let ?r0 = "if pipelineState r = PLAYING then addRecentItem r else r"
  let ?m = "if pipelineState r = PLAYING then ''Unexpected EOS message''
            else ''Unexpected EOS message while in state INIT''"
  have ok: "StopSync_error w = None
      \<or> sessionState (?r0\<lparr>pipelineState := ERROR\<rparr>) \<noteq> SESSION_ACTIVE"
    using h by (simp add: addRecentItem_def emit_def)
  have eq: "onBusMessage w MSG_EOS r
      = bailOutOnError w (''Fatal pipeline error: '' @ ?m) (?r0\<lparr>pipelineState := ERROR\<rparr>)"
    using h by (auto simp add: handleFatalPipelineError_def)
  note n = bailOutOnError_Normal [OF ok, of "''Fatal pipeline error: '' @ ?m"]
  show "fst (onBusMessage w MSG_EOS r) = Normal"
    unfolding eq n by simp
  show "pipeline (snd (onBusMessage w MSG_EOS r)) = None"
    unfolding eq n by (simp add: released_def)
  show "nameWatchId (snd (onBusMessage w MSG_EOS r)) = 0"
    unfolding eq n by (simp add: released_def)
  show "sessionState (snd (onBusMessage w MSG_EOS r)) \<noteq> SESSION_ACTIVE"
    unfolding eq n by (simp add: released_def)
  show "\<not> startRequest (snd (onBusMessage w MSG_EOS r))"
    unfolding eq n by simp
  show "\<not> stopRequest (snd (onBusMessage w MSG_EOS r))"
    unfolding eq n by simp
  show "since r (snd (onBusMessage w MSG_EOS r))
          = (if pipelineState r = PLAYING
             then AddRecentItem (filePath r)
                  # fatal_path_steps w ''Fatal pipeline error: Unexpected EOS message'' r
             else fatal_path_steps w
                    ''Fatal pipeline error: Unexpected EOS message while in state INIT'' r)"
    unfolding eq n
    by (simp add: since_def addRecentItem_def emit_def fatal_path_steps_def release_steps_def
        teardown_steps_def)
next
  assume h: "pipelineState r = FLUSHING \<and> stopRequest r
        \<and> (StopSync_error w = None \<or> sessionState r \<noteq> SESSION_ACTIVE)"
  then show "onBusMessage w MSG_EOS r
          = (Normal, (released r)\<lparr>stopRequest := False,
               effects := effects r @ AddRecentItem (filePath r) # release_steps w r
                          @ [StopResolve]\<rparr>)"
    by (auto simp add: release_eq released_def addRecentItem_def emit_def release_steps_def
        teardown_steps_def)
qed

text \<open>Instances: the example Recorder while flushing, playing, starting and stopped.\<close>

lemma eos_dispatch_instances:
  "pipelineState recorder_flushing = FLUSHING \<and> stopRequest recorder_flushing
   \<and> StopSync_error world_ok = None
   \<and> fst (onBusMessage world_ok MSG_EOS recorder_flushing) = Normal
   \<and> since recorder_flushing (snd (onBusMessage world_ok MSG_EOS recorder_flushing))
       = [AddRecentItem ''/home/u/Videos/cast.webm'', PipelineSetStateNull, UnwatchName 7,
          SessionStopSync, StopResolve]
   \<and> pipelineState (snd (onBusMessage world_ok MSG_EOS recorder_flushing)) = STOPPED
   \<and> pipelineState recorder_playing = PLAYING
   \<and> since recorder_playing (snd (onBusMessage world_ok MSG_EOS recorder_playing))
       = [AddRecentItem ''/home/u/Videos/cast.webm'', PipelineSetStateNull, UnwatchName 7,
          SessionStopSync, Log ''Recorder error: Fatal pipeline error: Unexpected EOS message'',
          OnErrorCallback]
   \<and> pipelineState recorder_starting = INIT
   \<and> pipelineState (snd (onBusMessage world_ok MSG_EOS recorder_starting)) = ERROR
   \<and> since recorder_starting (snd (onBusMessage world_ok MSG_EOS recorder_starting))
       = [UnwatchName 7, SessionStopSync,
          Log ''Recorder error: Fatal pipeline error: Unexpected EOS message while in state INIT'',
          OnErrorCallback,
          StartReject ''Fatal pipeline error: Unexpected EOS message while in state INIT'']
   \<and> pipelineState (snd (onBusMessage world_ok MSG_EOS recorder_flushing)) = STOPPED
   \<and> onBusMessage world_ok MSG_EOS (snd (onBusMessage world_ok MSG_EOS recorder_flushing))
       = (Normal, snd (onBusMessage world_ok MSG_EOS recorder_flushing))"
proof -
  let ?done = "snd (onBusMessage world_ok MSG_EOS recorder_flushing)"
  have w: "StopSync_error world_ok = None" "set_state_null world_ok = GST_SUCCESS"
    by (simp_all add: world_ok_def)
  have f: "pipelineState recorder_flushing = FLUSHING" "stopRequest recorder_flushing"
    by (simp_all add: recorder_flushing_eq)
  have p: "pipelineState recorder_playing = PLAYING"
    by (simp add: recorder_playing_eq)
  have i: "pipelineState recorder_starting = INIT"
    by (simp add: recorder_starting_eq)
  note tf = eos_dispatch [of recorder_flushing world_ok]
  from tf f w have f1: "onBusMessage world_ok MSG_EOS recorder_flushing
      = (Normal, (released recorder_flushing)\<lparr>stopRequest := False,
               effects := effects recorder_flushing @ AddRecentItem (filePath recorder_flushing)
                  # release_steps world_ok recorder_flushing @ [StopResolve]\<rparr>)"
    by blast
  have f2: "fst (onBusMessage world_ok MSG_EOS recorder_flushing) = Normal"
    unfolding f1 by simp
  have f3: "since recorder_flushing ?done
       = [AddRecentItem ''/home/u/Videos/cast.webm'', PipelineSetStateNull, UnwatchName 7,
          SessionStopSync, StopResolve]"
    unfolding f1
    by (simp add: since_def release_steps_def teardown_steps_def w recorder_flushing_eq)
  have f4: "pipelineState ?done = STOPPED"
    unfolding f1 by (simp add: released_def recorder_flushing_eq)
  note tp = eos_dispatch [of recorder_playing world_ok]
  from tp p w have "since recorder_playing (snd (onBusMessage world_ok MSG_EOS recorder_playing))
      = AddRecentItem (filePath recorder_playing)
          # fatal_path_steps world_ok ''Fatal pipeline error: Unexpected EOS message''
              recorder_playing"
    by simp
  then have p1: "since recorder_playing (snd (onBusMessage world_ok MSG_EOS recorder_playing))
       = [AddRecentItem ''/home/u/Videos/cast.webm'', PipelineSetStateNull, UnwatchName 7,
          SessionStopSync, Log ''Recorder error: Fatal pipeline error: Unexpected EOS message'',
          OnErrorCallback]"
    by (simp add: fatal_path_steps_def release_steps_def teardown_steps_def w
        recorder_playing_eq)
  note ti = eos_dispatch [of recorder_starting world_ok]
  from ti i have i1: "pipelineState (snd (onBusMessage world_ok MSG_EOS recorder_starting)) = ERROR"
    by (simp add: recorder_starting_eq)
  from ti i w have "since recorder_starting (snd (onBusMessage world_ok MSG_EOS recorder_starting))
      = fatal_path_steps world_ok
          ''Fatal pipeline error: Unexpected EOS message while in state INIT'' recorder_starting"
    by simp
  then have i2: "since recorder_starting (snd (onBusMessage world_ok MSG_EOS recorder_starting))
       = [UnwatchName 7, SessionStopSync,
          Log ''Recorder error: Fatal pipeline error: Unexpected EOS message while in state INIT'',
          OnErrorCallback,
          StartReject ''Fatal pipeline error: Unexpected EOS message while in state INIT'']"
    by (simp add: fatal_path_steps_def release_steps_def teardown_steps_def w
        recorder_starting_eq)
  note ts = eos_dispatch [of ?done world_ok]
  from ts f4 have s1: "onBusMessage world_ok MSG_EOS ?done = (Normal, ?done)"
    by blast
  from w(1) f f2 f3 f4 p p1 i i1 i2 s1 show ?thesis by blast
qed

text \<open>
  C3. In FLUSHING an end-of-stream message is to resolve the pending stop outcome and
  release the pipeline, the sender watch and the session. The remote stop call of
  \<^verbatim>\<open>_stopSession\<close> is made outside every \<^verbatim>\<open>try\<close>: when it throws, the exception
  leaves \<^verbatim>\<open>_onBusMessage\<close> after the pipeline and the sender watch have been
  released and before the stop outcome is resolved. The outcome stays pending, neither
  resolved nor rejected.
\<close>

theorem eos_flushing_stop_throws:
  "onBusMessage world_stop_fails MSG_EOS recorder_flushing
     = (Throw ''GDBus.Error: org.freedesktop.DBus.Error.NoReply'',
        recorder_flushing\<lparr>pipelineState := STOPPED, pipeline := None, nameWatchId := 0,
          sessionState := SESSION_STOPPED,
          effects := effects recorder_flushing
            @ [AddRecentItem ''/home/u/Videos/cast.webm'', PipelineSetStateNull,
               UnwatchName 7, SessionStopSync]\<rparr>)
   \<and> stopRequest (snd (onBusMessage world_stop_fails MSG_EOS recorder_flushing))
   \<and> StopResolve \<notin> set (effects (snd (onBusMessage world_stop_fails MSG_EOS recorder_flushing)))
   \<and> StopReject ''GDBus.Error: org.freedesktop.DBus.Error.NoReply''
        \<notin> set (effects (snd (onBusMessage world_stop_fails MSG_EOS recorder_flushing)))"
  by (simp add: recorder_flushing_eq world_stop_fails_def world_ok_def addRecentItem_def
      teardownPipeline_def unwatchSender_def stopSession_def emit_def)

section \<open>Expanding a template\<close>

text \<open>
  The loop of \<^verbatim>\<open>_generateFilePath\<close>, started outside an escape, computes the
  expansion \<open>expand\<close> and logs one warning for each unknown escape.
\<close>

lemma scan_char_plain:
  "\<not> escape s \<Longrightarrow> c \<noteq> CHR ''%'' \<Longrightarrow> scan_char g s c = s\<lparr>filename := filename s @ [c]\<rparr>"
  by (simp add: scan_char_def)

lemma scan_char_percent:
  "\<not> escape s \<Longrightarrow> scan_char g s CHR ''%'' = s\<lparr>escape := True\<rparr>"
  by (simp add: scan_char_def)

lemma scan_foldl:
  assumes "\<not> escape s"
  shows "scanned_name (foldl (scan_char g) s t) = filename s @ expand g (clockReads s) t
       \<and> warnings (foldl (scan_char g) s t)
           = warnings s @ map (\<lambda>c. ''Warning: Unknown escape '' @ [c]) (unknown_escapes t)"
  using assms
proof (induction g "clockReads s" t arbitrary: s rule: expand.induct)
  case (1 g)
  then show ?case by (simp add: scanned_name_def)
next
  case (2 g c)
  then show ?case by (simp add: scanned_name_def scan_char_def)
next
  case (3 g c d rest)
  show ?case
  proof (cases "c = CHR ''%''")
    case False
    let ?s = "s\<lparr>filename := filename s @ [c]\<rparr>"
    have "\<not> escape ?s" "clockReads ?s = clockReads s"
      using "3.prems" by simp_all
    with "3.hyps"(5) [of ?s] False "3.prems" show ?thesis
      by (simp add: scan_char_plain)
  next
    case True
    note pc = True
    show ?thesis
    proof (cases "d = CHR ''%''")
      case True
      let ?s = "s\<lparr>filename := filename s @ ''%''\<rparr>"
      have e: "scan_char g (scan_char g s c) d = ?s"
        using "3.prems" pc True by (simp add: scan_char_def)
      have "\<not> escape ?s" "clockReads ?s = clockReads s"
        using "3.prems" by simp_all
      with "3.hyps"(1) [of ?s] pc True e show ?thesis
        by simp
    next
      case False
      note nd = False
      show ?thesis
      proof (cases "d = CHR ''d''")
        case True
        let ?s = "s\<lparr>filename := filename s
                     @ date_time_format g (now_local g (clockReads s)) ''%Y-%m-%d'',
                    clockReads := Suc (clockReads s)\<rparr>"
        have e: "scan_char g (scan_char g s c) d = ?s"
          using "3.prems" pc True by (simp add: scan_char_def)
        have "\<not> escape ?s" "Suc (clockReads s) = clockReads ?s"
          using "3.prems" by simp_all
        with "3.hyps"(2) [of ?s] pc nd True e show ?thesis
          by simp
      next
        case False
        note ndd = False
        show ?thesis
        proof (cases "d = CHR ''t''")
          case True
          let ?s = "s\<lparr>filename := filename s
                       @ date_time_format g (now_local g (clockReads s)) ''%H-%M-%S'',
                      clockReads := Suc (clockReads s)\<rparr>"
          have e: "scan_char g (scan_char g s c) d = ?s"
            using "3.prems" pc True by (simp add: scan_char_def)
          have "\<not> escape ?s" "Suc (clockReads s) = clockReads ?s"
            using "3.prems" by simp_all
          with "3.hyps"(3) [of ?s] pc nd ndd True e show ?thesis
            by simp
        next
          case False
          let ?s = "s\<lparr>warnings := warnings s @ [''Warning: Unknown escape '' @ [d]]\<rparr>"
          have e: "scan_char g (scan_char g s c) d = ?s"
            using "3.prems" pc nd ndd False by (simp add: scan_char_def)
          have "\<not> escape ?s" "clockReads ?s = clockReads s"
            using "3.prems" by simp_all
          with "3.hyps"(4) [of ?s] pc nd ndd False e show ?thesis
            by simp
        qed
      qed
    qed
  qed
qed

lemma scan_template_expand:
  "scanned_name (scan_template g t) = expand g 0 t"
  "warnings (scan_template g t)
     = map (\<lambda>c. ''Warning: Unknown escape '' @ [c]) (unknown_escapes t)"
  using scan_foldl [of scan_start g t]
  by (simp_all add: scan_template_def scan_start_def)

text \<open>
  C7. For every template, the generated path is the absolute path of the expansion of
  the template, in which \<^verbatim>\<open>%d\<close> is the local date of the moment formatted with
  \<^verbatim>\<open>%Y-%m-%d\<close>, \<^verbatim>\<open>%t\<close> the local time formatted with \<^verbatim>\<open>%H-%M-%S\<close>, \<^verbatim>\<open>%%\<close>
  a percent sign and any other escape nothing, with a warning logged for it. So
  \<^verbatim>\<open>100%%done\<close> gives \<^verbatim>\<open>100%done\<close>, and \<^verbatim>\<open>%z\<close> gives the empty name and one
  warning.
\<close>

theorem generateFilePath_expands:
  "generateFilePath g template
     = (getAbsolutePath g (expand g 0 template),
        map (\<lambda>c. ''Warning: Unknown escape '' @ [c]) (unknown_escapes template))
   \<and> generateFilePath g ''cap-%d-%t.ext''
     = (getAbsolutePath g (''cap-'' @ date_time_format g (now_local g 0) ''%Y-%m-%d''
          @ ''-'' @ date_time_format g (now_local g 1) ''%H-%M-%S'' @ ''.ext''), [])
   \<and> generateFilePath g ''100%%done'' = (getAbsolutePath g ''100%done'', [])
   \<and> generateFilePath g ''%z'' = (getAbsolutePath g [], [''Warning: Unknown escape z''])"
proof -
  have a: "generateFilePath g t
     = (getAbsolutePath g (expand g 0 t),
        map (\<lambda>c. ''Warning: Unknown escape '' @ [c]) (unknown_escapes t))" for t
    by (simp add: generateFilePath_def scan_template_expand)
  have b: "expand g 0 ''cap-%d-%t.ext''
      = ''cap-'' @ date_time_format g (now_local g 0) ''%Y-%m-%d''
          @ ''-'' @ date_time_format g (now_local g 1) ''%H-%M-%S'' @ ''.ext''"
    by simp
  have b': "unknown_escapes ''cap-%d-%t.ext'' = []"
    by simp
  have c: "expand g 0 ''100%%done'' = ''100%done''" "unknown_escapes ''100%%done'' = []"
    by simp_all
  have d: "expand g 0 ''%z'' = []" "unknown_escapes ''%z'' = ''z''"
    by simp_all
  show ?thesis
    unfolding a b b' c d by simp
qed

text \<open>
  C10. A template that ends in a percent sign outside an escape gives a file name
  that ends in a percent sign: the name handed to \<^verbatim>\<open>_getAbsolutePath\<close> is the
  expansion of the rest of the template followed by \<^verbatim>\<open>%\<close>, and an absolute name is
  returned as it is.
\<close>

theorem dangling_percent_kept:
  assumes "\<not> escape (scan_template g pre)"
  shows "scanned_name (scan_template g (pre @ ''%'')) = expand g 0 pre @ ''%''
       \<and> fst (generateFilePath g (pre @ ''%'')) = getAbsolutePath g (expand g 0 pre @ ''%'')
       \<and> (path_is_absolute g (expand g 0 pre @ ''%'') \<longrightarrow>
            fst (generateFilePath g (pre @ ''%'')) = expand g 0 pre @ ''%'')"
proof -
  have s: "scan_template g (pre @ ''%'') = (scan_template g pre)\<lparr>escape := True\<rparr>"
    using assms by (simp add: scan_template_def scan_char_percent)
  have n: "filename (scan_template g pre) = expand g 0 pre"
    using assms scan_template_expand(1) [of g pre] by (simp add: scanned_name_def)
  have a: "scanned_name (scan_template g (pre @ ''%'')) = expand g 0 pre @ ''%''"
    by (simp add: s scanned_name_def n)
  then have b: "fst (generateFilePath g (pre @ ''%'')) = getAbsolutePath g (expand g 0 pre @ ''%'')"
    by (simp add: generateFilePath_def)
  from a b show ?thesis
    by (simp add: getAbsolutePath_def)
qed

text \<open>Instances: a relative and an absolute template ending in a percent sign.\<close>

lemma scan_template_cast: "scan_template glib_example ''cast'' =
    \<lparr>filename = ''cast'', escape = False, warnings = [], clockReads = 0\<rparr>"
  by (simp add: scan_template_def scan_start_def scan_char_def)

lemma scan_template_tmp_cast: "scan_template glib_example ''/tmp/cast'' =
    \<lparr>filename = ''/tmp/cast'', escape = False, warnings = [], clockReads = 0\<rparr>"
  by (simp add: scan_template_def scan_start_def scan_char_def)

theorem dangling_percent_kept_witness:
  "\<not> escape (scan_template glib_example ''cast'')
   \<and> scanned_name (scan_template glib_example ''cast%'') = ''cast%''
   \<and> fst (generateFilePath glib_example ''cast%'') = ''/home/u/Videos/cast%''
   \<and> \<not> escape (scan_template glib_example ''/tmp/cast'')
   \<and> path_is_absolute glib_example ''/tmp/cast%''
   \<and> fst (generateFilePath glib_example ''/tmp/cast%'') = ''/tmp/cast%''"
proof -
  have h: "\<not> escape (scan_template glib_example ''cast'')"
    by (simp add: scan_template_cast)
  have h2: "\<not> escape (scan_template glib_example ''/tmp/cast'')"
    by (simp add: scan_template_tmp_cast)
  have p: "path_is_absolute glib_example ''/tmp/cast%''"
    by (simp add: glib_example_def)
  have e: "expand glib_example 0 ''cast'' = ''cast''"
    "expand glib_example 0 ''/tmp/cast'' = ''/tmp/cast''"
    by simp_all
  note t1 = dangling_percent_kept [OF h]
  note t2 = dangling_percent_kept [OF h2]
  from t1 have a: "scanned_name (scan_template glib_example ''cast%'') = ''cast%''"
    by (simp add: e)
  from t1 have b: "fst (generateFilePath glib_example ''cast%'') = ''/home/u/Videos/cast%''"
    by (simp add: e getAbsolutePath_def glib_example_def)
  from t2 p have c: "fst (generateFilePath glib_example ''/tmp/cast%'') = ''/tmp/cast%''"
    by (simp add: e getAbsolutePath_def)
  from h a b h2 p c show ?thesis by blast
qed

section \<open>The registry and the keep-alive counter\<close>

lemma size_of_Nil [simp]: "size_of [] = 0"
  by (simp add: size_of_def)

lemma size_of_update:
  "size_of (AList.update k v al) = (if map_of al k = None then Suc (size_of al) else size_of al)"
  by (auto simp add: size_of_def dom_update map_of_eq_None_iff insert_absorb)

lemma keys_delete: "fst ` set (AList.delete k al) = fst ` set al - {k}"
proof -
  have "fst ` set (AList.delete k al) = set (map fst (AList.delete k al))"
    by simp
  also have "\<dots> = set (removeAll k (map fst al))"
    by (simp only: delete_keys)
  finally show ?thesis by simp
qed

lemma size_of_delete:
  "size_of (AList.delete k al) = (if map_of al k = None then size_of al else size_of al - 1)"
  by (auto simp add: size_of_def keys_delete map_of_eq_None_iff)

lemma size_of_pos: "map_of al k \<noteq> None \<Longrightarrow> 0 < size_of al"
  by (cases al) (auto simp add: size_of_def card_gt_0_iff)

lemma addRecorder_fresh:
  assumes "map_of (recorders svc) sender = None"
  shows "holdCount (addRecorder sender recorder svc)
           = holdCount svc + (if size_of (recorders svc) = 0 then 1 else 0)"
    "recorders (addRecorder sender recorder svc) = AList.update sender recorder (recorders svc)"
    "messages (addRecorder sender recorder svc) = messages svc"
  using assms by (simp_all add: addRecorder_def size_of_update hold_def Let_def)

lemma removeRecorder_holdCount:
  "holdCount (removeRecorder sender svc)
     = holdCount svc - (if map_of (recorders svc) sender \<noteq> None \<and> size_of (recorders svc) = 1
                        then 1 else 0)"
proof (cases "map_of (recorders svc) sender = None")
  case True
  then show ?thesis by (simp add: removeRecorder_def)
next
  case False
  with size_of_pos [of "recorders svc" sender] have "0 < size_of (recorders svc)" by simp
  with False show ?thesis
    by (auto simp add: removeRecorder_def size_of_delete release_def Let_def)
qed

lemma removeRecorder_recorders:
  "recorders (removeRecorder sender svc) = AList.delete sender (recorders svc)"
  by (auto simp add: removeRecorder_def release_def Let_def map_of_eq_None_iff
      delete_notin_dom delete_idem AList.delete_id)

lemma keep_alive_ok_addRecorder:
  assumes "map_of (recorders svc) sender = None" "keep_alive_ok c0 svc"
  shows "keep_alive_ok c0 (addRecorder sender recorder svc)"
  using assms by (simp add: keep_alive_ok_def addRecorder_fresh size_of_update)

lemma keep_alive_ok_removeRecorder:
  assumes "keep_alive_ok c0 svc"
  shows "keep_alive_ok c0 (removeRecorder sender svc)"
proof (cases "map_of (recorders svc) sender = None")
  case True
  with assms show ?thesis by (simp add: removeRecorder_def)
next
  case False
  with size_of_pos [of "recorders svc" sender] have "0 < size_of (recorders svc)" by simp
  with False assms show ?thesis
    by (auto simp add: keep_alive_ok_def removeRecorder_holdCount removeRecorder_recorders
        size_of_delete)
qed

lemma keep_alive_ok_messages [simp]:
  "keep_alive_ok c0 (svc\<lparr>messages := m\<rparr>) = keep_alive_ok c0 svc"
  by (simp add: keep_alive_ok_def)

lemma keep_alive_ok_log_message [simp]:
  "keep_alive_ok c0 (log_message m svc) = keep_alive_ok c0 svc"
  by (simp add: keep_alive_ok_def log_message_def)

lemma keep_alive_ok_write_back:
  assumes "map_of (recorders svc) sender \<noteq> None"
  shows "keep_alive_ok c0 (svc\<lparr>recorders := AList.update sender r (recorders svc)\<rparr>)
           = keep_alive_ok c0 svc"
  using assms size_of_pos [of "recorders svc" sender]
  by (simp add: keep_alive_ok_def size_of_update)

lemma addRecorder_present:
  "map_of (recorders (addRecorder sender recorder svc)) sender = Some recorder"
  by (simp add: addRecorder_def hold_def Let_def update_conv')

lemma keep_alive_ok_register:
  assumes "map_of (recorders svc) sender = None" "keep_alive_ok c0 svc"
  shows "keep_alive_ok c0
     ((addRecorder sender recorder svc)\<lparr>recorders :=
         AList.update sender recorder' (recorders (addRecorder sender recorder svc))\<rparr>)"
proof -
  have "map_of (recorders (addRecorder sender recorder svc)) sender \<noteq> None"
    by (simp add: addRecorder_present)
  then show ?thesis
    using assms by (simp add: keep_alive_ok_write_back keep_alive_ok_addRecorder)
qed

lemma keep_alive_ok_ScreencastAsync:
  assumes "keep_alive_ok c0 svc"
  shows "keep_alive_ok c0 (snd (ScreencastAsync w g params sender svc))"
proof (cases "map_of (recorders svc) sender = None")
  case False
  with assms show ?thesis by (simp add: ScreencastAsync_def)
next
  case True
  then have fresh: "map_of (recorders (svc\<lparr>messages := m\<rparr>)) sender = None" for m
    by simp
  have ok: "keep_alive_ok c0 (svc\<lparr>messages := m\<rparr>)" for m
    using assms by simp
  show ?thesis
    using assms keep_alive_ok_register [OF fresh ok]
    by (simp add: ScreencastAsync_def Let_def
        split: sum.splits prod.splits option.splits)
qed

lemma keep_alive_ok_ScreencastAreaAsync:
  assumes "keep_alive_ok c0 svc"
  shows "keep_alive_ok c0 (snd (ScreencastAreaAsync w g params sender svc))"
proof (cases "map_of (recorders svc) sender = None")
  case False
  with assms show ?thesis by (simp add: ScreencastAreaAsync_def)
next
  case True
  then have fresh: "map_of (recorders (svc\<lparr>messages := m\<rparr>)) sender = None" for m
    by simp
  have ok: "keep_alive_ok c0 (svc\<lparr>messages := m\<rparr>)" for m
    using assms by simp
  show ?thesis
    using assms keep_alive_ok_register [OF fresh ok]
    by (simp add: ScreencastAreaAsync_def Let_def
        split: sum.splits prod.splits option.splits)
qed

lemma keep_alive_ok_step:
  assumes "keep_alive_ok c0 svc"
  shows "keep_alive_ok c0 (service_step svc ev)"
proof (cases ev)
  case (CallScreencast w g params sender)
  with assms show ?thesis by (simp add: keep_alive_ok_ScreencastAsync)
next
  case (CallScreencastArea w g params sender)
  with assms show ?thesis by (simp add: keep_alive_ok_ScreencastAreaAsync)
next
  case (StartSettled outcome path sender)
  with assms show ?thesis
    by (cases outcome) (simp_all add: ScreencastAsync_settled_def keep_alive_ok_removeRecorder)
next
  case (AreaStartSettled outcome path sender)
  with assms show ?thesis
    by (cases outcome) (simp_all add: ScreencastAreaAsync_settled_def keep_alive_ok_removeRecorder)
next
  case (CallStopScreencast sender)
  with assms show ?thesis
    by (auto simp add: StopScreencastAsync_def keep_alive_ok_write_back
        split: option.splits prod.splits)
next
  case (StopSettled outcome sender)
  with assms show ?thesis
    by (cases outcome) (simp_all add: StopScreencastAsync_settled_def keep_alive_ok_removeRecorder)
next
  case (RecorderCallback w sender ev)
  show ?thesis
  proof (cases "map_of (recorders svc) sender")
    case None
    with RecorderCallback assms show ?thesis by simp
  next
    case (Some recorder)
    then have "keep_alive_ok c0 (svc\<lparr>recorders := AList.update sender r' (recorders svc)\<rparr>)" for r'
      using assms by (simp add: keep_alive_ok_write_back)
    with RecorderCallback Some show ?thesis
      by (simp add: keep_alive_ok_removeRecorder Let_def split: prod.splits)
  qed
next
  case (ErrorCallback sender)
  with assms show ?thesis by (simp add: keep_alive_ok_removeRecorder)
qed

lemma keep_alive_ok_run:
  "keep_alive_ok c0 svc \<Longrightarrow> keep_alive_ok c0 (service_run svc evs)"
  unfolding service_run_def
  by (induction evs arbitrary: svc) (simp_all add: keep_alive_ok_step)

text \<open>
  C8. Adding a Recorder for a sender that has none (the only way the service adds
  one: both recording methods return early for a sender that has a Recorder)
  increments the keep-alive counter exactly when the registry was empty; removing a
  sender decrements it exactly when the sender was the only one registered, so
  removing an absent sender does nothing. Over every sequence of calls, settled
  promises and callbacks the counter stands one above its value at rest exactly while
  the registry is not empty; whenever the registry is empty again, the counter is back
  at its initial value.
\<close>

theorem keep_alive_count:
  "(map_of (recorders svc) sender = None \<longrightarrow>
      holdCount (addRecorder sender recorder svc)
        = holdCount svc + (if size_of (recorders svc) = 0 then 1 else 0))
   \<and> holdCount (removeRecorder sender svc)
        = holdCount svc - (if map_of (recorders svc) sender \<noteq> None
                              \<and> size_of (recorders svc) = 1 then 1 else 0)
   \<and> (keep_alive_ok c0 svc \<longrightarrow> keep_alive_ok c0 (service_run svc evs))
   \<and> (size_of (recorders svc) = 0 \<and> size_of (recorders (service_run svc evs)) = 0 \<longrightarrow>
        holdCount (service_run svc evs) = holdCount svc)"
proof (intro conjI impI)
  show "holdCount (addRecorder sender recorder svc)
        = holdCount svc + (if size_of (recorders svc) = 0 then 1 else 0)"
    if "map_of (recorders svc) sender = None"
    using that by (rule addRecorder_fresh)
  show "holdCount (removeRecorder sender svc)
        = holdCount svc - (if map_of (recorders svc) sender \<noteq> None
                              \<and> size_of (recorders svc) = 1 then 1 else 0)"
    by (rule removeRecorder_holdCount)
  show "keep_alive_ok c0 (service_run svc evs)" if "keep_alive_ok c0 svc"
    using that by (rule keep_alive_ok_run)
  show "holdCount (service_run svc evs) = holdCount svc"
    if h: "size_of (recorders svc) = 0 \<and> size_of (recorders (service_run svc evs)) = 0"
  proof -
    from h have "keep_alive_ok (holdCount svc) svc"
      by (simp add: keep_alive_ok_def)
    then have "keep_alive_ok (holdCount svc) (service_run svc evs)"
      by (rule keep_alive_ok_run)
    with h show ?thesis by (simp add: keep_alive_ok_def)
  qed
qed

text \<open>
  \<^verbatim>\<open>_addRecorder\<close> itself does not look for the sender: called for the only
  registered sender it would hold the process a second time. The service never does so.
\<close>

lemma addRecorder_again:
  "holdCount (addRecorder '':1.42'' recorder_playing (addRecorder '':1.42'' recorder_new service_idle)) = 2"
  by (simp add: addRecorder_def service_idle_def hold_def size_of_def)

lemma generateFilePath_cast:
  "generateFilePath glib_example ''cast.webm'' = (''/home/u/Videos/cast.webm'', [])"
  by (simp add: generateFilePath_def scan_template_expand getAbsolutePath_def glib_example_def)

lemma ScreencastAsync_example:
  "ScreencastAsync world_ok glib_example (''cast.webm'', no_options) '':1.42'' service_idle
     = (Awaiting Pending ''/home/u/Videos/cast.webm'',
        \<lparr>recorders = [('':1.42'', recorder_starting)], holdCount = 1, messages = []\<rparr>)"
proof -
  have w: "\<not> disable_save_to_disk world_ok"
    "CreateSessionSync world_ok = Inr ''/org/gnome/Mutter/ScreenCast/Session/u1''"
    "ScreenSize world_ok = Some (1920, 1080)"
    by (simp_all add: world_ok_def)
  have s: "startRecording world_ok recorder_new = (Pending, recorder_starting)"
    by (simp add: recorder_starting_eq startRecording_def world_ok_def recorder_new_def emit_def)
  show ?thesis
    by (simp add: ScreencastAsync_def w generateFilePath_cast new_Recorder_example s
        service_idle_def addRecorder_def hold_def size_of_def)
qed

lemma service_run_example:
  "service_run service_idle events_example
     = \<lparr>recorders = [], holdCount = 0, messages = []\<rparr>"
  by code_simp

text \<open>
  Instances: one and two senders, an absent sender removed, and a whole recording
  from the call of \<^verbatim>\<open>Screencast\<close> to the answer of \<^verbatim>\<open>StopScreencast\<close>.
\<close>

theorem keep_alive_count_witness:
  "map_of (recorders service_idle) '':1.42'' = None
   \<and> holdCount (addRecorder '':1.42'' recorder_new service_idle) = 1
   \<and> map_of (recorders (addRecorder '':1.42'' recorder_new service_idle)) '':1.50'' = None
   \<and> holdCount (addRecorder '':1.50'' recorder_new
        (addRecorder '':1.42'' recorder_new service_idle)) = 1
   \<and> holdCount (removeRecorder '':1.99'' (addRecorder '':1.42'' recorder_new service_idle)) = 1
   \<and> holdCount (removeRecorder '':1.42'' (addRecorder '':1.42'' recorder_new service_idle)) = 0
   \<and> keep_alive_ok 0 service_idle
   \<and> keep_alive_ok 0 (service_run service_idle events_example)
   \<and> size_of (recorders service_idle) = 0
   \<and> size_of (recorders (service_run service_idle events_example)) = 0
   \<and> holdCount (service_run service_idle events_example) = 0"
proof -
  let ?one = "addRecorder '':1.42'' recorder_new service_idle"
  have one: "?one = \<lparr>recorders = [('':1.42'', recorder_new)], holdCount = 1, messages = []\<rparr>"
    by (simp add: addRecorder_def service_idle_def hold_def size_of_def)
  have f1: "map_of (recorders service_idle) '':1.42'' = None"
    by (simp add: service_idle_def)
  have f2: "map_of (recorders ?one) '':1.50'' = None"
    by (simp add: one)
  have k: "keep_alive_ok 0 service_idle"
    by (simp add: keep_alive_ok_def service_idle_def)
  have z: "size_of (recorders service_idle) = 0"
    "size_of (recorders (service_run service_idle events_example)) = 0"
    unfolding service_run_example by (simp_all add: service_idle_def)
  have h0: "holdCount service_idle = 0"
    by (simp add: service_idle_def)
  note t0 = keep_alive_count [of service_idle "'':1.42''" recorder_new 0 events_example]
  from t0 f1 have a: "holdCount ?one = 1"
    by (simp add: service_idle_def)
  from keep_alive_count [of ?one "'':1.50''" recorder_new 0 "[] :: unit service_event list"] f2 a
  have b: "holdCount (addRecorder '':1.50'' recorder_new ?one) = 1"
    by (simp add: one size_of_def)
  from keep_alive_count [of ?one "'':1.99''" recorder_new 0 "[] :: unit service_event list"] a
  have c: "holdCount (removeRecorder '':1.99'' ?one) = 1"
    by (simp add: one)
  from keep_alive_count [of ?one "'':1.42''" recorder_new 0 "[] :: unit service_event list"] a
  have d: "holdCount (removeRecorder '':1.42'' ?one) = 0"
    by (simp add: one size_of_def)
  from t0 k have e: "keep_alive_ok 0 (service_run service_idle events_example)"
    by blast
  from t0 z h0 have f: "holdCount (service_run service_idle events_example) = 0"
    by simp
  from f1 a f2 b c d k e z f show ?thesis by blast
qed

section \<open>Ending a recording\<close>



section \<open>Starting a recording\<close>

text \<open>
  \<^verbatim>\<open>CreateSessionSync\<close> is called outside every \<^verbatim>\<open>try\<close>: when it throws, the
  exception leaves the method and the invocation is never answered.
\<close>

lemma Screencast_session_failure:
  assumes "\<not> disable_save_to_disk w" "map_of (recorders svc) sender = None"
    "CreateSessionSync w = Inl e"
  shows "ScreencastAsync w g params sender svc = (Uncaught e, svc)"
    "ScreencastAreaAsync w g area sender svc = (Uncaught e, svc)"
  using assms by (simp_all add: ScreencastAsync_def ScreencastAreaAsync_def)

text \<open>
  C5 asks that every failure, a failure to create the remote session among them, ends
  in an answer with a success flag. With a Mutter that does not answer
  \<^verbatim>\<open>CreateSession\<close>, both recording methods end in an uncaught exception instead.
\<close>

theorem Screencast_session_failure_uncaught:
  "ScreencastAsync world_no_session glib_example (''cast.webm'', no_options) '':1.42'' service_idle
     = (Uncaught ''GDBus.Error: org.freedesktop.DBus.Error.ServiceUnknown'', service_idle)
   \<and> ScreencastAreaAsync world_no_session glib_example
        (0, 0, 640, 480, ''cast.webm'', no_options) '':1.42'' service_idle
     = (Uncaught ''GDBus.Error: org.freedesktop.DBus.Error.ServiceUnknown'', service_idle)"
proof -
  have w: "\<not> disable_save_to_disk world_no_session"
    "CreateSessionSync world_no_session
       = Inl ''GDBus.Error: org.freedesktop.DBus.Error.ServiceUnknown''"
    by (simp_all add: world_no_session_def world_ok_def)
  have s: "map_of (recorders service_idle) '':1.42'' = None"
    by (simp add: service_idle_def)
  show ?thesis
    by (simp add: Screencast_session_failure [OF w(1) s w(2)])
qed

text \<open>
  In every other case the two methods answer with the flag, at once or when the
  promise of \<^verbatim>\<open>startRecording\<close> is settled.
\<close>

lemma Screencast_replies_otherwise:
  assumes "CreateSessionSync w = Inr p" "ScreenSize w = Some z"
  shows "\<exists>path q. fst (ScreencastAsync w g params sender svc) = Replied (False, [])
           \<or> fst (ScreencastAsync w g params sender svc) = Awaiting q path"
    "\<exists>path q. fst (ScreencastAreaAsync w g area sender svc) = Replied (False, [])
           \<or> fst (ScreencastAreaAsync w g area sender svc) = Awaiting q path"
  using assms
  by (auto simp add: ScreencastAsync_def ScreencastAreaAsync_def Let_def
      split: sum.splits prod.splits option.splits)

lemma Screencast_settled_replies:
  "fst (ScreencastAsync_settled Fulfilled path sender svc) = (True, path)"
  "fst (ScreencastAsync_settled (RejectedWith e) path sender svc) = (False, [])"
  "fst (ScreencastAreaAsync_settled Fulfilled path sender svc) = (True, path)"
  "fst (ScreencastAreaAsync_settled (RejectedWith e) path sender svc) = (False, [])"
  by (simp_all add: ScreencastAsync_settled_def ScreencastAreaAsync_settled_def)

end
